theory Spec2Isabelle
  imports Main "HOL-Library.Word"
begin

unbundle bit_operations_syntax

section \<open>Machine types and the memory block\<close>

text \<open>
  \<open>int\<close> is a 32-bit two's complement integer, \<open>int64\<close> and \<open>size_t\<close> are 64 bits wide.
  A raw pointer is its address, a natural number; the address 0 is \<open>nullptr\<close>.
  A template parameter \<open>taType\<close> enters the model through \<open>sizeof(taType)\<close> only.
\<close>

type_synonym int32 = "32 word"
type_synonym int64 = "64 word"
type_synonym size_t = "64 word"
type_synonym ptr = nat

text \<open>
  \<open>MemBlock\<close> is declared in Bedrock/Memory.h, which is not part of the sources at hand.
  Its two members are taken from the brace initialisers of Allocator.h,
  \<^verbatim>\<open>{ (uint8*)inPtr, inSize * (int64)sizeof(taType) }\<close>, and from the use of \<^verbatim>\<open>.mPtr\<close>;
  the second member, whose name Allocator.h never spells, is called after the spec's
  "byte-length".
\<close>

record MemBlock =
  mPtr :: ptr
  mLength :: int64

text \<open>\<^verbatim>\<open>mem != nullptr\<close> on a block: the block's pointer is not null.\<close>

definition MemBlock_is_null :: "MemBlock \<Rightarrow> bool" where
  "MemBlock_is_null mem = (mPtr mem = 0)"

datatype error = AssertFailed | NullDeref | NullCall | OutOfMemory

text \<open>
  Modelled from the spec: the macro \<open>gAssert\<close> (Bedrock/Core.h) is not part of the sources
  at hand. Following the spec's "programmer errors, checked only via debug assertions", the model
  is the debug build: a false condition stops the operation with \<open>AssertFailed\<close>.
\<close>

definition gAssert :: "bool \<Rightarrow> error + unit" where
  "gAssert c = (if c then Inr () else Inl AssertFailed)"

subsection \<open>Element counts to byte lengths\<close>

text \<open>
  \<^verbatim>\<open>inSize * sizeof(taType)\<close>: the \<open>int\<close> is converted to \<open>size_t\<close> (sign extension, that is
  the value modulo \<open>2^64\<close>) and the product wraps. The callee's parameter is 64 bits wide, so it
  receives these bits.
\<close>

definition int_times_sizeof :: "int32 \<Rightarrow> size_t \<Rightarrow> int64" where
  "int_times_sizeof inSize sz = scast inSize * sz"

text \<open>
  \<^verbatim>\<open>inSize * (int64)sizeof(taType)\<close>: the \<open>int\<close> is promoted to \<open>int64\<close> and multiplied
  with the size read as \<open>int64\<close>. (A product outside \<open>int64\<close> is undefined in C++; the model
  wraps.)
\<close>

definition int_times_int64_sizeof :: "int32 \<Rightarrow> size_t \<Rightarrow> int64" where
  "int_times_int64_sizeof inSize sz = scast inSize * (ucast sz :: int64)"

section \<open>The backing stores as parameters\<close>

text \<open>
  The heap (\<open>gMemAlloc\<close>, \<open>gMemFree\<close>), \<open>MemArena\<close> and \<open>VMemArena\<close> live in
  Bedrock/Memory.h and Bedrock/TempMemory.h. The adapters of Allocator.h are embedded over any
  implementation of them: a record of operations over a state type. Every operation may stop
  with an error (a failed assertion inside the callee, a fatal heap failure).
\<close>

record 'h HeapOps =
  gMemAlloc :: "'h \<Rightarrow> int64 \<Rightarrow> error + MemBlock \<times> 'h"
  gMemFree :: "'h \<Rightarrow> MemBlock \<Rightarrow> error + 'h"

record 'a MemArenaOps =
  Alloc :: "'a \<Rightarrow> int64 \<Rightarrow> error + MemBlock \<times> 'a"
  Free :: "'a \<Rightarrow> MemBlock \<Rightarrow> error + 'a"
  TryRealloc :: "'a \<Rightarrow> MemBlock \<Rightarrow> int64 \<Rightarrow> error + bool \<times> 'a"
  Owns :: "'a \<Rightarrow> ptr \<Rightarrow> bool"

text \<open>
  \<open>VMemArena\<close> adds what \<open>VMemAllocator\<close> uses of it: \<open>GetMemBlock\<close>, the default
  constructor, the constructor from a reserved size and a commit size, and the two default sizes.
\<close>

record 'v VMemArenaOps = "'v MemArenaOps" +
  GetMemBlock :: "'v \<Rightarrow> MemBlock"
  VMemArena_default :: "'v"
  VMemArena_ctor :: "int64 \<Rightarrow> int64 \<Rightarrow> 'v"
  cDefaultReservedSize :: int64
  cDefaultCommitSize :: int64

text \<open>
  The memory the adapters act on: the thread-local \<open>gTempMemArena\<close>, the arenas that
  \<open>ArenaAllocatorBase\<close> objects point to (by address; two adapters with the same address share
  one arena), and the heap.
\<close>

record ('a, 'h) world =
  gTempMemArena :: 'a
  arenas :: "nat \<Rightarrow> 'a"
  heap :: 'h

section \<open>Allocator.h\<close>

subsection \<open>DefaultAllocator\<close>

definition DefaultAllocator_Allocate ::
  "'h HeapOps \<Rightarrow> size_t \<Rightarrow> int32 \<Rightarrow> ('a, 'h) world \<Rightarrow> error + ptr \<times> ('a, 'h) world" where
  "DefaultAllocator_Allocate H sz inSize w =
     (case gMemAlloc H (heap w) (int_times_sizeof inSize sz) of
        Inl e \<Rightarrow> Inl e
      | Inr (mem, h') \<Rightarrow> Inr (mPtr mem, w\<lparr>heap := h'\<rparr>))"

definition DefaultAllocator_Free ::
  "'h HeapOps \<Rightarrow> size_t \<Rightarrow> ptr \<Rightarrow> int32 \<Rightarrow> ('a, 'h) world \<Rightarrow> error + ('a, 'h) world" where
  "DefaultAllocator_Free H sz inPtr inSize w =
     (case gMemFree H (heap w) \<lparr>mPtr = inPtr, mLength = int_times_int64_sizeof inSize sz\<rparr> of
        Inl e \<Rightarrow> Inl e
      | Inr h' \<Rightarrow> Inr (w\<lparr>heap := h'\<rparr>))"

definition DefaultAllocator_TryRealloc :: "ptr \<Rightarrow> int32 \<Rightarrow> int32 \<Rightarrow> error + bool" where
  "DefaultAllocator_TryRealloc inPtr inCurrentSize inNewSize =
     (case gAssert (inPtr \<noteq> 0) of
        Inl e \<Rightarrow> Inl e
      | Inr _ \<Rightarrow> Inr False)"

subsection \<open>TempAllocator\<close>

definition TempAllocator_Allocate ::
  "'a MemArenaOps \<Rightarrow> 'h HeapOps \<Rightarrow> size_t \<Rightarrow> int32 \<Rightarrow> ('a, 'h) world
     \<Rightarrow> error + ptr \<times> ('a, 'h) world" where
  "TempAllocator_Allocate A H sz inSize w =
     (case Alloc A (gTempMemArena w) (int_times_sizeof inSize sz) of
        Inl e \<Rightarrow> Inl e
      | Inr (mem, a') \<Rightarrow>
          if \<not> MemBlock_is_null mem then Inr (mPtr mem, w\<lparr>gTempMemArena := a'\<rparr>)
          else DefaultAllocator_Allocate H sz inSize (w\<lparr>gTempMemArena := a'\<rparr>))"

definition TempAllocator_Free ::
  "'a MemArenaOps \<Rightarrow> 'h HeapOps \<Rightarrow> size_t \<Rightarrow> ptr \<Rightarrow> int32 \<Rightarrow> ('a, 'h) world
     \<Rightarrow> error + ('a, 'h) world" where
  "TempAllocator_Free A H sz inPtr inSize w =
     (if Owns A (gTempMemArena w) inPtr
      then (case Free A (gTempMemArena w)
                   \<lparr>mPtr = inPtr, mLength = int_times_int64_sizeof inSize sz\<rparr> of
              Inl e \<Rightarrow> Inl e
            | Inr a' \<Rightarrow> Inr (w\<lparr>gTempMemArena := a'\<rparr>))
      else DefaultAllocator_Free H sz inPtr inSize w)"

definition TempAllocator_TryRealloc ::
  "'a MemArenaOps \<Rightarrow> size_t \<Rightarrow> ptr \<Rightarrow> int32 \<Rightarrow> int32 \<Rightarrow> ('a, 'h) world
     \<Rightarrow> error + bool \<times> ('a, 'h) world" where
  "TempAllocator_TryRealloc A sz inPtr inCurrentSize inNewSize w =
     (case gAssert (inPtr \<noteq> 0) of
        Inl e \<Rightarrow> Inl e
      | Inr _ \<Rightarrow>
          if Owns A (gTempMemArena w) inPtr
          then (case TryRealloc A (gTempMemArena w)
                       \<lparr>mPtr = inPtr, mLength = int_times_int64_sizeof inCurrentSize sz\<rparr>
                       (int_times_sizeof inNewSize sz) of
                  Inl e \<Rightarrow> Inl e
                | Inr (b, a') \<Rightarrow> Inr (b, w\<lparr>gTempMemArena := a'\<rparr>))
          else (case DefaultAllocator_TryRealloc inPtr inCurrentSize inNewSize of
                  Inl e \<Rightarrow> Inl e
                | Inr b \<Rightarrow> Inr (b, w)))"

subsection \<open>ArenaAllocatorBase\<close>

text \<open>
  The adapter holds a pointer to an arena it does not own: \<open>None\<close> is \<open>nullptr\<close> (the default
  constructor), \<open>Some r\<close> the arena at address \<open>r\<close>. Going through a null \<open>mArena\<close> is the
  error \<open>NullDeref\<close>.
\<close>

record ArenaAllocatorBase =
  mArena :: "nat option"

definition ArenaAllocatorBase_default :: ArenaAllocatorBase where
  "ArenaAllocatorBase_default = \<lparr>mArena = None\<rparr>"

definition ArenaAllocatorBase_ctor :: "nat \<Rightarrow> ArenaAllocatorBase" where
  "ArenaAllocatorBase_ctor inArena = \<lparr>mArena = Some inArena\<rparr>"

definition GetArena :: "ArenaAllocatorBase \<Rightarrow> nat option" where
  "GetArena this = mArena this"

definition ArenaAllocatorBase_Allocate ::
  "'a MemArenaOps \<Rightarrow> size_t \<Rightarrow> ArenaAllocatorBase \<Rightarrow> int32 \<Rightarrow> ('a, 'h) world
     \<Rightarrow> error + ptr \<times> ('a, 'h) world" where
  "ArenaAllocatorBase_Allocate A sz this inSize w =
     (case mArena this of
        None \<Rightarrow> Inl NullDeref
      | Some r \<Rightarrow>
          (case Alloc A (arenas w r) (int_times_sizeof inSize sz) of
             Inl e \<Rightarrow> Inl e
           | Inr (mem, a') \<Rightarrow> Inr (mPtr mem, w\<lparr>arenas := (arenas w)(r := a')\<rparr>)))"

definition ArenaAllocatorBase_Free ::
  "'a MemArenaOps \<Rightarrow> size_t \<Rightarrow> ArenaAllocatorBase \<Rightarrow> ptr \<Rightarrow> int32 \<Rightarrow> ('a, 'h) world
     \<Rightarrow> error + ('a, 'h) world" where
  "ArenaAllocatorBase_Free A sz this inPtr inSize w =
     (case mArena this of
        None \<Rightarrow> Inl NullDeref
      | Some r \<Rightarrow>
          (case Free A (arenas w r)
                  \<lparr>mPtr = inPtr, mLength = int_times_int64_sizeof inSize sz\<rparr> of
             Inl e \<Rightarrow> Inl e
           | Inr a' \<Rightarrow> Inr (w\<lparr>arenas := (arenas w)(r := a')\<rparr>)))"

definition ArenaAllocatorBase_TryRealloc ::
  "'a MemArenaOps \<Rightarrow> size_t \<Rightarrow> ArenaAllocatorBase \<Rightarrow> ptr \<Rightarrow> int32 \<Rightarrow> int32 \<Rightarrow> ('a, 'h) world
     \<Rightarrow> error + bool \<times> ('a, 'h) world" where
  "ArenaAllocatorBase_TryRealloc A sz this inPtr inCurrentSize inNewSize w =
     (case gAssert (inPtr \<noteq> 0) of
        Inl e \<Rightarrow> Inl e
      | Inr _ \<Rightarrow>
          (case mArena this of
             None \<Rightarrow> Inl NullDeref
           | Some r \<Rightarrow>
               (case TryRealloc A (arenas w r)
                       \<lparr>mPtr = inPtr, mLength = int_times_int64_sizeof inCurrentSize sz\<rparr>
                       (int_times_sizeof inNewSize sz) of
                  Inl e \<Rightarrow> Inl e
                | Inr (b, a') \<Rightarrow> Inr (b, w\<lparr>arenas := (arenas w)(r := a')\<rparr>))))"

subsection \<open>VMemAllocator\<close>

text \<open>The adapter owns its arena by value (member \<open>mArena\<close> of \<open>VMemAllocator\<close>).\<close>

record 'v VMemAllocator =
  mVMemArena :: 'v

definition VMemAllocator_default :: "'v VMemArenaOps \<Rightarrow> 'v VMemAllocator" where
  "VMemAllocator_default V = \<lparr>mVMemArena = VMemArena_default V\<rparr>"

text \<open>The two \<open>int\<close> arguments are widened to the arena constructor's parameters.\<close>

definition VMemAllocator_ctor :: "'v VMemArenaOps \<Rightarrow> int32 \<Rightarrow> int32 \<Rightarrow> 'v VMemAllocator" where
  "VMemAllocator_ctor V inReservedSizeInBytes inCommitIncreaseSizeInBytes =
     \<lparr>mVMemArena = VMemArena_ctor V (scast inReservedSizeInBytes)
                                     (scast inCommitIncreaseSizeInBytes)\<rparr>"

definition VMemAllocator_Allocate ::
  "'v VMemArenaOps \<Rightarrow> size_t \<Rightarrow> int32 \<Rightarrow> 'v VMemAllocator \<Rightarrow> error + ptr \<times> 'v VMemAllocator" where
  "VMemAllocator_Allocate V sz inSize this =
     (let this1 = (if MemBlock_is_null (GetMemBlock V (mVMemArena this))
                   then this\<lparr>mVMemArena :=
                            VMemArena_ctor V (cDefaultReservedSize V) (cDefaultCommitSize V)\<rparr>
                   else this)
      in case Alloc V (mVMemArena this1) (int_times_sizeof inSize sz) of
           Inl e \<Rightarrow> Inl e
         | Inr (mem, v') \<Rightarrow> Inr (mPtr mem, this1\<lparr>mVMemArena := v'\<rparr>))"

definition VMemAllocator_Free ::
  "'v VMemArenaOps \<Rightarrow> size_t \<Rightarrow> ptr \<Rightarrow> int32 \<Rightarrow> 'v VMemAllocator \<Rightarrow> error + 'v VMemAllocator" where
  "VMemAllocator_Free V sz inPtr inSize this =
     (case Free V (mVMemArena this)
             \<lparr>mPtr = inPtr, mLength = int_times_int64_sizeof inSize sz\<rparr> of
        Inl e \<Rightarrow> Inl e
      | Inr v' \<Rightarrow> Inr (this\<lparr>mVMemArena := v'\<rparr>))"

definition VMemAllocator_TryRealloc ::
  "'v VMemArenaOps \<Rightarrow> size_t \<Rightarrow> ptr \<Rightarrow> int32 \<Rightarrow> int32 \<Rightarrow> 'v VMemAllocator
     \<Rightarrow> error + bool \<times> 'v VMemAllocator" where
  "VMemAllocator_TryRealloc V sz inPtr inCurrentSize inNewSize this =
     (case gAssert (inPtr \<noteq> 0) of
        Inl e \<Rightarrow> Inl e
      | Inr _ \<Rightarrow>
          (case TryRealloc V (mVMemArena this)
                  \<lparr>mPtr = inPtr, mLength = int_times_int64_sizeof inCurrentSize sz\<rparr>
                  (int_times_sizeof inNewSize sz) of
             Inl e \<Rightarrow> Inl e
           | Inr (b, v') \<Rightarrow> Inr (b, this\<lparr>mVMemArena := v'\<rparr>)))"

section \<open>The arenas and the heap\<close>

subsection \<open>BoundedArena\<close>

text \<open>
  Modelled from the spec: \<open>MemArena\<close> (Bedrock/Memory.h) is not part of the sources at hand.
  The spec's BoundedArena "owns a single contiguous byte buffer of fixed capacity C, a cursor
  \<open>top\<close> (0 \<le> top \<le> C) marking the next free byte, and a fixed-size table of at most K pending
  out-of-order frees, each a {offset, length} pair". The buffer is given by the address of its
  first byte. Offsets and lengths are integers; a block's length is read from its \<open>int64\<close>.
\<close>

record BoundedArena =
  arena_buffer :: ptr
  arena_capacity :: int
  arena_top :: int
  arena_pending :: "(int \<times> int) list"
  arena_K :: nat

definition null_MemBlock :: MemBlock where
  "null_MemBlock = \<lparr>mPtr = 0, mLength = 0\<rparr>"

definition block_offset :: "BoundedArena \<Rightarrow> MemBlock \<Rightarrow> int" where
  "block_offset a blk = int (mPtr blk) - int (arena_buffer a)"

text \<open>
  Modelled from the spec: "\<open>block\<close> sits exactly at \<open>top - block.length\<close> (the most recent
  allocation)".
\<close>

definition is_top_block :: "BoundedArena \<Rightarrow> MemBlock \<Rightarrow> bool" where
  "is_top_block a blk = (block_offset a blk = arena_top a - sint (mLength blk))"

text \<open>
  Modelled from the spec: "\<open>Allocate(bytes) -> MemBlock\<close>: bumps \<open>top\<close> by \<open>bytes\<close>
  (applying required alignment) if \<open>top + bytes \<le> C\<close>; otherwise fails by returning a null
  MemBlock". The spec names no alignment and its test for the most recent block is
  \<open>top - block.length\<close>, so the cursor moves by \<open>bytes\<close> exactly (alignment 1).
\<close>

definition BoundedArena_Allocate :: "BoundedArena \<Rightarrow> int64 \<Rightarrow> MemBlock \<times> BoundedArena" where
  "BoundedArena_Allocate a bytes =
     (if arena_top a + sint bytes \<le> arena_capacity a
      then (\<lparr>mPtr = nat (int (arena_buffer a) + arena_top a), mLength = bytes\<rparr>,
            a\<lparr>arena_top := arena_top a + sint bytes\<rparr>)
      else (null_MemBlock, a))"

text \<open>
  Modelled from the spec: "\<open>Owns(pointer) -> bool\<close>: true iff pointer falls within the arena's
  backing buffer range".
\<close>

definition BoundedArena_Owns :: "BoundedArena \<Rightarrow> ptr \<Rightarrow> bool" where
  "BoundedArena_Owns a p =
     (int (arena_buffer a) \<le> int p \<and> int p < int (arena_buffer a) + arena_capacity a)"

text \<open>The pending entry of highest offset, if the table is not empty.\<close>

fun highest_pending :: "(int \<times> int) list \<Rightarrow> (int \<times> int) option" where
  "highest_pending [] = None"
| "highest_pending (e # es) =
     (case highest_pending es of
        None \<Rightarrow> Some e
      | Some m \<Rightarrow> if fst e < fst m then Some m else Some e)"

text \<open>
  Modelled from the spec: "\<^bold>\<open>coalesce\<close>: while the highest-offset pending entry ends exactly at
  the new \<open>top\<close>, remove it from the pending table and retract \<open>top\<close> by its length (repeat)".
  Every round removes an entry of the table, so the loop ends.
\<close>

function coalesce :: "BoundedArena \<Rightarrow> BoundedArena" where
  "coalesce a =
     (case highest_pending (arena_pending a) of
        None \<Rightarrow> a
      | Some e \<Rightarrow>
          if fst e + snd e = arena_top a
          then coalesce (a\<lparr>arena_pending := remove1 e (arena_pending a),
                           arena_top := arena_top a - snd e\<rparr>)
          else a)"
  by pat_completeness auto
termination
proof (relation "measure (\<lambda>a. length (arena_pending a))")
  show "wf (measure (\<lambda>a. length (arena_pending a)))"
    by simp
next
  fix a :: BoundedArena and e :: "int \<times> int"
  assume highest: "highest_pending (arena_pending a) = Some e"
  have "highest_pending es = Some m \<Longrightarrow> m \<in> set es" for es and m :: "int \<times> int"
    by (induction es arbitrary: m) (auto split: option.splits if_splits)
  from this [OF highest] have "e \<in> set (arena_pending a)" .
  then have "length (remove1 e (arena_pending a)) < length (arena_pending a)"
    by (simp add: length_remove1) (cases "arena_pending a"; auto)
  then show "(a\<lparr>arena_pending := remove1 e (arena_pending a), arena_top := arena_top a - snd e\<rparr>, a)
               \<in> measure (\<lambda>a. length (arena_pending a))"
    by simp
qed

declare coalesce.simps [simp del]

text \<open>
  Modelled from the spec: "\<open>Free(block)\<close>: if \<open>block\<close> sits exactly at \<open>top - block.length\<close>
  (the most recent allocation), retract \<open>top\<close> by \<open>block.length\<close>, then coalesce [...]. If
  \<open>block\<close> is not the most recent allocation, record it in the pending table; if the table
  already holds K entries, the block is not reclaimed". The usage errors of the spec's error
  taxonomy are assertions: "freeing a pointer not owned by the arena" and "an out-of-order free
  on an arena configured with zero tolerated pending entries".
\<close>

definition BoundedArena_Free :: "BoundedArena \<Rightarrow> MemBlock \<Rightarrow> error + BoundedArena" where
  "BoundedArena_Free a blk =
     (if \<not> BoundedArena_Owns a (mPtr blk) then Inl AssertFailed
      else if is_top_block a blk
      then Inr (coalesce (a\<lparr>arena_top := arena_top a - sint (mLength blk)\<rparr>))
      else if arena_K a = 0 then Inl AssertFailed
      else if length (arena_pending a) < arena_K a
      then Inr (a\<lparr>arena_pending := arena_pending a @ [(block_offset a blk, sint (mLength blk))]\<rparr>)
      else Inr a)"

text \<open>
  Modelled from the spec: "\<open>TryRealloc(block, newSize) -> bool\<close>: succeeds only if \<open>block\<close>
  is the current top allocation and \<open>top - block.length + newSize \<le> C\<close>; on success adjusts
  \<open>top\<close> in place without moving data; otherwise returns false".
\<close>

definition BoundedArena_TryRealloc ::
  "BoundedArena \<Rightarrow> MemBlock \<Rightarrow> int64 \<Rightarrow> bool \<times> BoundedArena" where
  "BoundedArena_TryRealloc a blk newSize =
     (if is_top_block a blk
         \<and> arena_top a - sint (mLength blk) + sint newSize \<le> arena_capacity a
      then (True, a\<lparr>arena_top := arena_top a - sint (mLength blk) + sint newSize\<rparr>)
      else (False, a))"

text \<open>Modelled from the spec: "\<open>Reset()\<close>: sets \<open>top = 0\<close>, clears pending table".\<close>

definition BoundedArena_Reset :: "BoundedArena \<Rightarrow> BoundedArena" where
  "BoundedArena_Reset a = a\<lparr>arena_top := 0, arena_pending := []\<rparr>"

definition BoundedArena_ops :: "BoundedArena MemArenaOps" where
  "BoundedArena_ops =
     \<lparr>Alloc = (\<lambda>a bytes. Inr (BoundedArena_Allocate a bytes)),
      Free = BoundedArena_Free,
      TryRealloc = (\<lambda>a blk newSize. Inr (BoundedArena_TryRealloc a blk newSize)),
      Owns = BoundedArena_Owns\<rparr>"

subsection \<open>GrowableVirtualArena\<close>

text \<open>
  Modelled from the spec: \<open>VMemArena\<close> (Bedrock/Memory.h) is not part of the sources at hand.
  The spec's GrowableVirtualArena "owns a reserved address range of configurable total size and
  a committed prefix of configurable growth increment; behaves exactly like BoundedArena over the
  committed prefix". The committed prefix is a BoundedArena with no tolerated out-of-order free
  (the \<open>VMemArena<0>\<close> of \<open>VMemAllocator\<close>): its buffer is the reserved range's first byte, its
  capacity the number of committed bytes.
\<close>

record VMemArena =
  vm_prefix :: BoundedArena
  vm_reserved :: int
  vm_commit_increase :: int

text \<open>
  Modelled from the spec: "Lazily uninitialized until first use (no reservation made by default
  construction)": the default-constructed arena has no address range.
\<close>

definition VMemArena_uninitialized :: VMemArena where
  "VMemArena_uninitialized =
     \<lparr>vm_prefix = \<lparr>arena_buffer = 0, arena_capacity = 0, arena_top = 0,
                    arena_pending = [], arena_K = 0\<rparr>,
      vm_reserved = 0, vm_commit_increase = 0\<rparr>"

text \<open>
  Modelled from the spec: construction with sizes reserves "the configured virtual address range
  (a fixed upper bound on how large the arena may ever grow) without committing physical memory
  for all of it". \<open>addr\<close> is the address the operating system's reservation returns (0 when it
  fails); nothing is committed yet.
\<close>

definition VMemArena_reserve :: "ptr \<Rightarrow> int64 \<Rightarrow> int64 \<Rightarrow> VMemArena" where
  "VMemArena_reserve addr inReservedSize inCommitIncreaseSize =
     \<lparr>vm_prefix = \<lparr>arena_buffer = addr, arena_capacity = 0, arena_top = 0,
                    arena_pending = [], arena_K = 0\<rparr>,
      vm_reserved = sint inReservedSize, vm_commit_increase = sint inCommitIncreaseSize\<rparr>"

text \<open>The reserved range as a block; null when nothing is reserved.\<close>

definition VMemArena_GetMemBlock :: "VMemArena \<Rightarrow> MemBlock" where
  "VMemArena_GetMemBlock v =
     \<lparr>mPtr = arena_buffer (vm_prefix v), mLength = word_of_int (vm_reserved v)\<rparr>"

text \<open>
  Modelled from the spec: "When \<open>Allocate\<close> would exceed the committed prefix but stays within
  the reserved range, additional pages are committed in increments of the configured growth size
  before the bump proceeds [...]. When \<open>Allocate\<close> would exceed the reserved range entirely, it
  fails (null MemBlock)". The committed size grows by the least number of increments that covers
  the request and never beyond the reserved size; with an increment that is not positive nothing
  can be committed and the allocation fails.
\<close>

definition VMemArena_commit_for :: "VMemArena \<Rightarrow> int \<Rightarrow> int" where
  "VMemArena_commit_for v need =
     (let committed = arena_capacity (vm_prefix v); inc = vm_commit_increase v
      in min (vm_reserved v) (committed + inc * ((need - committed + inc - 1) div inc)))"

definition VMemArena_Allocate :: "VMemArena \<Rightarrow> int64 \<Rightarrow> MemBlock \<times> VMemArena" where
  "VMemArena_Allocate v bytes =
     (let need = arena_top (vm_prefix v) + sint bytes
      in if need \<le> arena_capacity (vm_prefix v)
         then (case BoundedArena_Allocate (vm_prefix v) bytes of
                 (mem, a') \<Rightarrow> (mem, v\<lparr>vm_prefix := a'\<rparr>))
         else if need \<le> vm_reserved v \<and> 0 < vm_commit_increase v
         then (case BoundedArena_Allocate
                      ((vm_prefix v)\<lparr>arena_capacity := VMemArena_commit_for v need\<rparr>) bytes of
                 (mem, a') \<Rightarrow> (mem, v\<lparr>vm_prefix := a'\<rparr>))
         else (null_MemBlock, v))"

text \<open>
  Modelled from the spec: "Same operation contract as BoundedArena over its committed prefix";
  "any out-of-order \<open>Free\<close> call is a usage error (signaled via assertion)".
\<close>

definition VMemArena_Free :: "VMemArena \<Rightarrow> MemBlock \<Rightarrow> error + VMemArena" where
  "VMemArena_Free v blk =
     (case BoundedArena_Free (vm_prefix v) blk of
        Inl e \<Rightarrow> Inl e
      | Inr a' \<Rightarrow> Inr (v\<lparr>vm_prefix := a'\<rparr>))"

definition VMemArena_TryRealloc :: "VMemArena \<Rightarrow> MemBlock \<Rightarrow> int64 \<Rightarrow> bool \<times> VMemArena" where
  "VMemArena_TryRealloc v blk newSize =
     (case BoundedArena_TryRealloc (vm_prefix v) blk newSize of
        (b, a') \<Rightarrow> (b, v\<lparr>vm_prefix := a'\<rparr>))"

definition VMemArena_Owns :: "VMemArena \<Rightarrow> ptr \<Rightarrow> bool" where
  "VMemArena_Owns v p = BoundedArena_Owns (vm_prefix v) p"

text \<open>
  The operations of a \<open>VMemArena\<close> whose reservations return \<open>addr\<close>, with the given default
  reserved and commit sizes (constants of Bedrock/Memory.h).
\<close>

definition VMemArena_ops :: "ptr \<Rightarrow> int64 \<Rightarrow> int64 \<Rightarrow> VMemArena VMemArenaOps" where
  "VMemArena_ops addr defaultReserved defaultCommit =
     \<lparr>Alloc = (\<lambda>v bytes. Inr (VMemArena_Allocate v bytes)),
      Free = VMemArena_Free,
      TryRealloc = (\<lambda>v blk newSize. Inr (VMemArena_TryRealloc v blk newSize)),
      Owns = VMemArena_Owns,
      GetMemBlock = VMemArena_GetMemBlock,
      VMemArena_default = VMemArena_uninitialized,
      VMemArena_ctor = VMemArena_reserve addr,
      cDefaultReservedSize = defaultReserved,
      cDefaultCommitSize = defaultCommit\<rparr>"

subsection \<open>The heap\<close>

text \<open>
  Modelled from the spec: \<open>gMemAlloc\<close> and \<open>gMemFree\<close> (Bedrock/Memory.h) are not part of the
  sources at hand. The spec says of the heap only that "heap failure is fatal". This heap hands
  out fresh addresses below a limit, keeps the live blocks, and stops with \<open>OutOfMemory\<close> when
  the request does not fit; freeing a block that is not live is a failed assertion. It serves
  the concrete runs below; the theorems about the adapters hold for every heap.
\<close>

record Heap =
  heap_next :: ptr
  heap_limit :: ptr
  heap_live :: "MemBlock list"

definition Heap_gMemAlloc :: "Heap \<Rightarrow> int64 \<Rightarrow> error + MemBlock \<times> Heap" where
  "Heap_gMemAlloc h bytes =
     (if sint bytes < 0 \<or> int (heap_limit h) < int (heap_next h) + sint bytes
      then Inl OutOfMemory
      else Inr (\<lparr>mPtr = heap_next h, mLength = bytes\<rparr>,
                h\<lparr>heap_next := heap_next h + nat (sint bytes),
                  heap_live := \<lparr>mPtr = heap_next h, mLength = bytes\<rparr> # heap_live h\<rparr>))"

definition Heap_gMemFree :: "Heap \<Rightarrow> MemBlock \<Rightarrow> error + Heap" where
  "Heap_gMemFree h blk =
     (if blk \<in> set (heap_live h)
      then Inr (h\<lparr>heap_live := remove1 blk (heap_live h)\<rparr>)
      else Inl AssertFailed)"

definition Heap_ops :: "Heap HeapOps" where
  "Heap_ops = \<lparr>gMemAlloc = Heap_gMemAlloc, gMemFree = Heap_gMemFree\<rparr>"

section \<open>Test.cpp\<close>

text \<open>
  A test function has type \<open>void (*)()\<close>; a null function pointer is \<open>None\<close>. The name and
  the flag of the running test are \<open>static thread_local\<close>: every thread has its own
  \<open>sCurrentTestName\<close> and \<open>sCurrentTestSuccess\<close>, so both are functions of the thread, and
  \<open>gRunTests\<close>, \<open>gFailTest\<close> and \<open>gIsRunningTest\<close> take the thread that calls them. Being
  \<open>static\<close>, the flag is reached from the body of a test by a call of \<open>gFailTest\<close> only: a
  test function is modelled by the calls of \<open>gFailTest\<close> made while it runs, in the order in
  which they happen, each with the thread that makes it (the thread that runs the test, or a
  thread the test has started). The list of tests, the trace and the debugger are shared by all
  threads.
\<close>

type_synonym thread = nat

record FailCall =
  inMacro :: string
  inCode :: string
  inFile :: string
  inLine :: int32

type_synonym TestFunction = "(thread \<times> FailCall) list"

record Test =
  mName :: string
  mFunction :: "TestFunction option"

datatype TestResult = Success | Failure

text \<open>
  What \<open>gTrace\<close> prints, one constructor per format string of Test.cpp. The elapsed
  milliseconds of the "finished" line are measured time and are left out.
\<close>

datatype trace_line =
    RunningAllTests
  | TestStarting string
  | TestFinished string bool
  | CheckFailed string string string int32

record harness =
  sAllTests :: "Test list"
  sCurrentTestName :: "thread \<Rightarrow> string"
  sCurrentTestSuccess :: "thread \<Rightarrow> bool"
  traced :: "trace_line list"
  debuggerAttached :: bool
  breakpoints :: nat

definition gTrace :: "trace_line \<Rightarrow> harness \<Rightarrow> harness" where
  "gTrace l st = st\<lparr>traced := traced st @ [l]\<rparr>"

text \<open>\<open>inName\<close> is a \<open>const char*\<close>: \<open>None\<close> is \<open>nullptr\<close>, \<open>Some []\<close> the empty string.\<close>

definition gRegisterTest ::
  "string option \<Rightarrow> TestFunction option \<Rightarrow> harness \<Rightarrow> error + harness" where
  "gRegisterTest inName inFunction st =
     (case gAssert (inName \<noteq> None \<and> inName \<noteq> Some []) of
        Inl e \<Rightarrow> Inl e
      | Inr _ \<Rightarrow>
          Inr (st\<lparr>sAllTests := sAllTests st @ [\<lparr>mName = the inName, mFunction = inFunction\<rparr>]\<rparr>))"

definition gIsRunningTest :: "thread \<Rightarrow> harness \<Rightarrow> bool" where
  "gIsRunningTest self st = (sCurrentTestName st self \<noteq> [])"

text \<open>
  \<open>gFailTest\<close> called on the thread \<open>self\<close>: the assignment reaches that thread's flag.
  \<open>gIsDebuggerAttached\<close> (Bedrock/Debug.h) is read from the state; \<open>breakpoint\<close> is counted.
\<close>

definition gFailTest ::
  "thread \<Rightarrow> string \<Rightarrow> string \<Rightarrow> string \<Rightarrow> int32 \<Rightarrow> harness \<Rightarrow> harness" where
  "gFailTest self macro code file line st =
     (let st1 = gTrace (CheckFailed macro code file line) st;
          st2 = st1\<lparr>sCurrentTestSuccess := (sCurrentTestSuccess st1)(self := False)\<rparr>
      in if debuggerAttached st2 then st2\<lparr>breakpoints := breakpoints st2 + 1\<rparr> else st2)"

text \<open>
  \<^verbatim>\<open>test.mFunction()\<close> for a function that is not null: the calls of \<open>gFailTest\<close> made
  while it runs, each on its thread.
\<close>

fun call_TestFunction :: "TestFunction \<Rightarrow> harness \<Rightarrow> harness" where
  "call_TestFunction [] st = st"
| "call_TestFunction ((caller, c) # cs) st =
     call_TestFunction cs (gFailTest caller (inMacro c) (inCode c) (inFile c) (inLine c) st)"

text \<open>
  The \<open>for\<close> loop of \<open>gRunTests\<close>, called on the thread \<open>self\<close>, over the tests still to
  run, with \<open>all_success\<close>.
\<close>

fun gRunTests_loop ::
  "thread \<Rightarrow> Test list \<Rightarrow> bool \<Rightarrow> harness \<Rightarrow> error + bool \<times> harness" where
  "gRunTests_loop self [] all_success st = Inr (all_success, st)"
| "gRunTests_loop self (test # tests) all_success st =
     (let st1 = st\<lparr>sCurrentTestName := (sCurrentTestName st)(self := mName test)\<rparr>;
          st2 = st1\<lparr>sCurrentTestSuccess := (sCurrentTestSuccess st1)(self := True)\<rparr>;
          st3 = gTrace (TestStarting (mName test)) st2
      in case mFunction test of
           None \<Rightarrow> Inl NullCall
         | Some f \<Rightarrow>
             (let st4 = call_TestFunction f st3;
                  st5 = gTrace (TestFinished (mName test) (sCurrentTestSuccess st4 self)) st4;
                  all_success' = (all_success \<and> sCurrentTestSuccess st5 self);
                  st6 = st5\<lparr>sCurrentTestName := (sCurrentTestName st5)(self := [])\<rparr>
              in gRunTests_loop self tests all_success' st6))"

definition gRunTests :: "thread \<Rightarrow> harness \<Rightarrow> error + TestResult \<times> harness" where
  "gRunTests self st =
     (let st1 = gTrace RunningAllTests st
      in case gRunTests_loop self (sAllTests st1) True st1 of
           Inl e \<Rightarrow> Inl e
         | Inr (all_success, st') \<Rightarrow> Inr (if all_success then Success else Failure, st'))"

text \<open>The names of the tests a trace shows as started, and the verdict lines it shows.\<close>

fun started :: "trace_line list \<Rightarrow> string list" where
  "started [] = []"
| "started (TestStarting n # ls) = n # started ls"
| "started (_ # ls) = started ls"

fun verdicts :: "trace_line list \<Rightarrow> (string \<times> bool) list" where
  "verdicts [] = []"
| "verdicts (TestFinished n b # ls) = (n, b) # verdicts ls"
| "verdicts (_ # ls) = verdicts ls"

text \<open>
  A test passes on a thread when it has a function and no call of \<open>gFailTest\<close> made while it
  runs is made on that thread.
\<close>

definition passes_on :: "thread \<Rightarrow> Test \<Rightarrow> bool" where
  "passes_on self test =
     (case mFunction test of
        None \<Rightarrow> False
      | Some f \<Rightarrow> self \<notin> set (map fst f))"

section \<open>Span\<close>

text \<open>
  A \<open>Span<taType>\<close> is a pointer to elements and a count. Pointer arithmetic on \<open>taType*\<close>
  counts elements, so \<open>mData\<close> is the position of the first element in a memory of elements.
\<close>

record Span =
  mData :: int
  mSize :: int32

text \<open>
  Modelled from the spec: the macro \<open>gBoundsCheck\<close> (Bedrock/Core.h) is not part of the sources
  at hand. For the spec's "bounds-checked array view" an index passes against a size when
  \<open>0 \<le> index < size\<close>; a failed check is a failed assertion.
\<close>

definition gBoundsCheck :: "int32 \<Rightarrow> int32 \<Rightarrow> error + unit" where
  "gBoundsCheck inIndex inSize = gAssert (0 \<le>s inIndex \<and> inIndex <s inSize)"

text \<open>\<open>gMin\<close> (Bedrock/Algorithm.h) on \<open>int\<close>: the smaller of the two, compared as signed.\<close>

definition gMin :: "int32 \<Rightarrow> int32 \<Rightarrow> int32" where
  "gMin a b = (if a <s b then a else b)"

text \<open>\<open>cMaxInt\<close> (Bedrock/Core.h): the largest \<open>int\<close>.\<close>

definition cMaxInt :: int32 where
  "cMaxInt = 0x7FFFFFFF"

definition Span_Size :: "Span \<Rightarrow> int32" where
  "Span_Size s = mSize s"

definition Span_Empty :: "Span \<Rightarrow> bool" where
  "Span_Empty s = (mSize s = 0)"

definition SubSpan :: "Span \<Rightarrow> int32 \<Rightarrow> int32 \<Rightarrow> error + Span" where
  "SubSpan s inPosition inCount =
     (case gBoundsCheck inPosition (mSize s) of
        Inl e \<Rightarrow> Inl e
      | Inr _ \<Rightarrow>
          (let size = gMin inCount (mSize s - inPosition)
           in Inr \<lparr>mData = mData s + sint inPosition, mSize = size\<rparr>))"

text \<open>The elements a span shows of a memory \<open>mem\<close>; a span of negative size shows none.\<close>

definition Span_elems :: "(int \<Rightarrow> 'e) \<Rightarrow> Span \<Rightarrow> 'e list" where
  "Span_elems mem s = map (\<lambda>i. mem (mData s + int i)) [0..<nat (sint (mSize s))]"

section \<open>Definitions for stating the properties\<close>

text \<open>
  The byte length of the spec, "\<open>n * sizeof(element)\<close>", as an \<open>int64\<close>: the product of the
  element count and the element size, taken as integers. The conversions of Allocator.h are
  compared with it.
\<close>

definition spec_byte_length :: "int32 \<Rightarrow> size_t \<Rightarrow> int64" where
  "spec_byte_length n sz = word_of_int (sint n * uint sz)"

text \<open>A sequence of calls on one \<open>VMemAllocator\<close>; it stops at the first error.\<close>

datatype vmem_call =
    Call_Allocate int32
  | Call_Free ptr int32
  | Call_TryRealloc ptr int32 int32

fun VMemAllocator_call ::
  "'v VMemArenaOps \<Rightarrow> size_t \<Rightarrow> vmem_call \<Rightarrow> 'v VMemAllocator \<Rightarrow> error + 'v VMemAllocator" where
  "VMemAllocator_call V sz (Call_Allocate n) this =
     (case VMemAllocator_Allocate V sz n this of
        Inl e \<Rightarrow> Inl e
      | Inr (p, this') \<Rightarrow> Inr this')"
| "VMemAllocator_call V sz (Call_Free p n) this = VMemAllocator_Free V sz p n this"
| "VMemAllocator_call V sz (Call_TryRealloc p c n) this =
     (case VMemAllocator_TryRealloc V sz p c n this of
        Inl e \<Rightarrow> Inl e
      | Inr (b, this') \<Rightarrow> Inr this')"

fun VMemAllocator_run ::
  "'v VMemArenaOps \<Rightarrow> size_t \<Rightarrow> vmem_call list \<Rightarrow> 'v VMemAllocator \<Rightarrow> error + 'v VMemAllocator" where
  "VMemAllocator_run V sz [] this = Inr this"
| "VMemAllocator_run V sz (c # cs) this =
     (case VMemAllocator_call V sz c this of
        Inl e \<Rightarrow> Inl e
      | Inr this' \<Rightarrow> VMemAllocator_run V sz cs this')"

fun is_Allocate :: "vmem_call \<Rightarrow> bool" where
  "is_Allocate (Call_Allocate n) = True"
| "is_Allocate _ = False"

section \<open>Concrete instances\<close>

text \<open>
  A temp arena of 16 bytes at address 4096 that tolerates two out-of-order frees, a heap from
  address 65536, and a memory in which every arena address holds such an arena.
\<close>

definition ex_arena :: BoundedArena where
  "ex_arena = \<lparr>arena_buffer = 4096, arena_capacity = 16, arena_top = 0,
                arena_pending = [], arena_K = 2\<rparr>"

definition ex_heap :: Heap where
  "ex_heap = \<lparr>heap_next = 65536, heap_limit = 131072, heap_live = []\<rparr>"

definition ex_world :: "(BoundedArena, Heap) world" where
  "ex_world = \<lparr>gTempMemArena = ex_arena, arenas = (\<lambda>_. ex_arena), heap = ex_heap\<rparr>"

text \<open>The same memory after the temp arena served 8 bytes, and after the heap served 32.\<close>

definition ex_world_arena_served :: "(BoundedArena, Heap) world" where
  "ex_world_arena_served = ex_world\<lparr>gTempMemArena := ex_arena\<lparr>arena_top := 8\<rparr>\<rparr>"

definition ex_world_heap_served :: "(BoundedArena, Heap) world" where
  "ex_world_heap_served =
     ex_world\<lparr>heap := \<lparr>heap_next = 65568, heap_limit = 131072,
                        heap_live = [\<lparr>mPtr = 65536, mLength = 32\<rparr>]\<rparr>\<rparr>"

text \<open>
  The arena at address 7 after two allocations: block A, 8 bytes at 4096, then block B, 4 bytes
  at 4104; 4 of the 16 bytes are left. The same for the temp arena.
\<close>

definition ex_world_two_blocks :: "(BoundedArena, Heap) world" where
  "ex_world_two_blocks = ex_world\<lparr>arenas := (arenas ex_world)(7 := ex_arena\<lparr>arena_top := 12\<rparr>)\<rparr>"

definition ex_world_temp_two_blocks :: "(BoundedArena, Heap) world" where
  "ex_world_temp_two_blocks = ex_world\<lparr>gTempMemArena := ex_arena\<lparr>arena_top := 12\<rparr>\<rparr>"

text \<open>
  A \<open>VMemArena\<close> whose reservation returns the address 1048576, with 65536 bytes reserved and
  4096 bytes committed at a time by default.
\<close>

definition ex_vmem :: "VMemArena VMemArenaOps" where
  "ex_vmem = VMemArena_ops 1048576 65536 4096"

text \<open>The arena of the spec's coalescing example: 300 bytes, two tolerated pending frees.\<close>

definition ex_arena300 :: BoundedArena where
  "ex_arena300 = \<lparr>arena_buffer = 4096, arena_capacity = 300, arena_top = 0,
                   arena_pending = [], arena_K = 2\<rparr>"

text \<open>
  Two registered tests, run on thread 0: the first never calls \<open>gFailTest\<close>, the second calls
  it once on the thread that runs it.
\<close>

definition ex_fail_call :: FailCall where
  "ex_fail_call = \<lparr>inMacro = ''TEST_TRUE'', inCode = ''span.Empty()'',
                    inFile = ''SpanTest.cpp'', inLine = 12\<rparr>"

definition ex_harness :: harness where
  "ex_harness =
     \<lparr>sAllTests =
        [\<lparr>mName = ''Arena'', mFunction = Some []\<rparr>,
         \<lparr>mName = ''Span'', mFunction = Some [(0, ex_fail_call)]\<rparr>],
      sCurrentTestName = (\<lambda>_. []), sCurrentTestSuccess = (\<lambda>_. False), traced = [],
      debuggerAttached = False, breakpoints = 0\<rparr>"

text \<open>
  One registered test, run on thread 0, whose only call of \<open>gFailTest\<close> is made on thread 1, a
  thread the test has started.
\<close>

definition ex_harness_worker :: harness where
  "ex_harness_worker =
     \<lparr>sAllTests = [\<lparr>mName = ''Worker'', mFunction = Some [(1, ex_fail_call)]\<rparr>],
      sCurrentTestName = (\<lambda>_. []), sCurrentTestSuccess = (\<lambda>_. False), traced = [],
      debuggerAttached = False, breakpoints = 0\<rparr>"

section \<open>Properties of the adapters\<close>

text \<open>
  C8. The Default (heap) adapter's \<open>TryRealloc\<close> returns false for every non-null pointer and
  every pair of current and new sizes: a heap block is never resized in place.
\<close>

theorem DefaultAllocator_TryRealloc_never_succeeds:
  "inPtr \<noteq> 0 \<Longrightarrow> DefaultAllocator_TryRealloc inPtr inCurrentSize inNewSize = Inr False"
  by (simp add: DefaultAllocator_TryRealloc_def gAssert_def)

theorem DefaultAllocator_TryRealloc_never_succeeds_witness:
  "DefaultAllocator_TryRealloc 65536 4 8 = Inr False"
  using DefaultAllocator_TryRealloc_never_succeeds [of 65536 4 8] by simp

text \<open>
  C9. For the Temp adapter, \<open>TryRealloc\<close> on a non-null pointer that the thread-local temp
  arena does not own returns false and leaves the memory as it was: it is the Default adapter's
  \<open>TryRealloc\<close>, which never succeeds.
\<close>

theorem TempAllocator_TryRealloc_not_owned:
  "inPtr \<noteq> 0 \<Longrightarrow> \<not> Owns A (gTempMemArena w) inPtr \<Longrightarrow>
     TempAllocator_TryRealloc A sz inPtr inCurrentSize inNewSize w = Inr (False, w)
     \<and> TempAllocator_TryRealloc A sz inPtr inCurrentSize inNewSize w =
         (case DefaultAllocator_TryRealloc inPtr inCurrentSize inNewSize of
            Inl e \<Rightarrow> Inl e
          | Inr b \<Rightarrow> Inr (b, w))"
  by (simp add: TempAllocator_TryRealloc_def DefaultAllocator_TryRealloc_def gAssert_def)

theorem TempAllocator_TryRealloc_not_owned_witness:
  "(65536::nat) \<noteq> 0 \<and> \<not> Owns BoundedArena_ops (gTempMemArena ex_world) 65536
   \<and> TempAllocator_TryRealloc BoundedArena_ops 4 65536 4 8 ex_world = Inr (False, ex_world)"
  using TempAllocator_TryRealloc_not_owned [of 65536 BoundedArena_ops ex_world 4 4 8]
  by (simp add: BoundedArena_ops_def BoundedArena_Owns_def ex_world_def ex_arena_def)

text \<open>
  C4. \<open>TryRealloc\<close> with a null pointer is a usage error on each of the four adapters: the
  assertion \<open>inPtr != nullptr\<close> fails, whatever the sizes and the state of the memory, and no
  boolean is returned.
\<close>

theorem TryRealloc_null_pointer_asserts:
  "DefaultAllocator_TryRealloc 0 c n = Inl AssertFailed
   \<and> TempAllocator_TryRealloc A sz 0 c n w = Inl AssertFailed
   \<and> ArenaAllocatorBase_TryRealloc A' sz this 0 c n w' = Inl AssertFailed
   \<and> VMemAllocator_TryRealloc V sz 0 c n vthis = Inl AssertFailed"
  by (simp add: DefaultAllocator_TryRealloc_def TempAllocator_TryRealloc_def
      ArenaAllocatorBase_TryRealloc_def VMemAllocator_TryRealloc_def gAssert_def)

text \<open>Byte lengths of the concrete runs: 2 and 8 elements of 4 bytes.\<close>

lemma ex_bytes:
  "int_times_sizeof 2 4 = 8" "int_times_int64_sizeof 2 4 = 8"
  "int_times_sizeof 8 4 = 32" "int_times_int64_sizeof 8 4 = 32"
  by (simp_all add: int_times_sizeof_def int_times_int64_sizeof_def)

text \<open>
  C1. Temp adapter. \<open>Allocate\<close> returns the temp arena's block when the arena's allocation
  is not null, leaving the heap alone, and is the Default adapter's \<open>Allocate\<close> exactly when
  the arena returned a null block. \<open>Free\<close> is the temp arena's \<open>Free\<close> when the arena owns
  the pointer, leaving the heap alone, and the Default adapter's \<open>Free\<close> otherwise. This holds
  for every implementation of the arena and of the heap.
\<close>

theorem TempAllocator_routing:
  "(\<forall>mem a'. Alloc A (gTempMemArena w) (int_times_sizeof inSize sz) = Inr (mem, a') \<longrightarrow>
       (\<not> MemBlock_is_null mem \<longrightarrow>
          TempAllocator_Allocate A H sz inSize w = Inr (mPtr mem, w\<lparr>gTempMemArena := a'\<rparr>))
     \<and> (MemBlock_is_null mem \<longrightarrow>
          TempAllocator_Allocate A H sz inSize w =
            DefaultAllocator_Allocate H sz inSize (w\<lparr>gTempMemArena := a'\<rparr>)))
   \<and> (Owns A (gTempMemArena w) inPtr \<longrightarrow>
        TempAllocator_Free A H sz inPtr inSize w =
          (case Free A (gTempMemArena w)
                  \<lparr>mPtr = inPtr, mLength = int_times_int64_sizeof inSize sz\<rparr> of
             Inl e \<Rightarrow> Inl e
           | Inr a' \<Rightarrow> Inr (w\<lparr>gTempMemArena := a'\<rparr>)))
   \<and> (\<not> Owns A (gTempMemArena w) inPtr \<longrightarrow>
        TempAllocator_Free A H sz inPtr inSize w = DefaultAllocator_Free H sz inPtr inSize w)"
  by (simp add: TempAllocator_Allocate_def TempAllocator_Free_def)

theorem TempAllocator_routing_witness:
  "TempAllocator_Allocate BoundedArena_ops Heap_ops 4 2 ex_world = Inr (4096, ex_world_arena_served)
   \<and> TempAllocator_Allocate BoundedArena_ops Heap_ops 4 8 ex_world = Inr (65536, ex_world_heap_served)
   \<and> Owns BoundedArena_ops (gTempMemArena ex_world_arena_served) 4096
   \<and> \<not> Owns BoundedArena_ops (gTempMemArena ex_world_heap_served) 65536
   \<and> TempAllocator_Free BoundedArena_ops Heap_ops 4 4096 2 ex_world_arena_served = Inr ex_world
   \<and> TempAllocator_Free BoundedArena_ops Heap_ops 4 65536 8 ex_world_heap_served =
       Inr (ex_world\<lparr>heap := ex_heap\<lparr>heap_next := 65568\<rparr>\<rparr>)"
proof -
  have served: "Alloc BoundedArena_ops (gTempMemArena ex_world) (int_times_sizeof 2 4) =
      Inr (\<lparr>mPtr = 4096, mLength = 8\<rparr>, ex_arena\<lparr>arena_top := 8\<rparr>)"
    by (simp add: ex_bytes BoundedArena_ops_def BoundedArena_Allocate_def ex_world_def ex_arena_def)
  have refused: "Alloc BoundedArena_ops (gTempMemArena ex_world) (int_times_sizeof 8 4) =
      Inr (null_MemBlock, ex_arena)"
    by (simp add: ex_bytes BoundedArena_ops_def BoundedArena_Allocate_def ex_world_def ex_arena_def)
  have owned: "Owns BoundedArena_ops (gTempMemArena ex_world_arena_served) 4096"
    by (simp add: BoundedArena_ops_def BoundedArena_Owns_def ex_world_arena_served_def
        ex_world_def ex_arena_def)
  have foreign: "\<not> Owns BoundedArena_ops (gTempMemArena ex_world_heap_served) 65536"
    by (simp add: BoundedArena_ops_def BoundedArena_Owns_def ex_world_heap_served_def
        ex_world_def ex_arena_def)
  note alloc2 = TempAllocator_routing [where A = BoundedArena_ops and H = Heap_ops and w = ex_world
      and inSize = 2 and sz = 4, THEN conjunct1, rule_format, OF served]
  note alloc8 = TempAllocator_routing [where A = BoundedArena_ops and H = Heap_ops and w = ex_world
      and inSize = 8 and sz = 4, THEN conjunct1, rule_format, OF refused]
  have a1: "TempAllocator_Allocate BoundedArena_ops Heap_ops 4 2 ex_world =
      Inr (4096, ex_world_arena_served)"
    using alloc2 [THEN conjunct1] by (simp add: MemBlock_is_null_def ex_world_arena_served_def)
  have a2: "TempAllocator_Allocate BoundedArena_ops Heap_ops 4 8 ex_world =
      Inr (65536, ex_world_heap_served)"
    using alloc8 [THEN conjunct2]
    by (simp add: MemBlock_is_null_def null_MemBlock_def ex_world_heap_served_def
        DefaultAllocator_Allocate_def Heap_ops_def Heap_gMemAlloc_def ex_bytes
        ex_world_def ex_heap_def ex_arena_def)
  have f1: "TempAllocator_Free BoundedArena_ops Heap_ops 4 4096 2 ex_world_arena_served =
      Inr ex_world"
    using TempAllocator_routing [where A = BoundedArena_ops and H = Heap_ops and w = ex_world_arena_served
        and inSize = 2 and sz = 4 and inPtr = 4096,
        THEN conjunct2, THEN conjunct1, rule_format, OF owned]
    by (simp add: ex_bytes BoundedArena_ops_def BoundedArena_Free_def BoundedArena_Owns_def
        is_top_block_def block_offset_def coalesce.simps
        ex_world_arena_served_def ex_world_def ex_arena_def)
  have f2: "TempAllocator_Free BoundedArena_ops Heap_ops 4 65536 8 ex_world_heap_served =
      Inr (ex_world\<lparr>heap := ex_heap\<lparr>heap_next := 65568\<rparr>\<rparr>)"
    using TempAllocator_routing [where A = BoundedArena_ops and H = Heap_ops and w = ex_world_heap_served
        and inSize = 8 and sz = 4 and inPtr = 65536,
        THEN conjunct2, THEN conjunct2, rule_format, OF foreign]
    by (simp add: ex_bytes DefaultAllocator_Free_def Heap_ops_def Heap_gMemFree_def
        ex_world_heap_served_def ex_world_def ex_heap_def)
  from a1 a2 owned foreign f1 f2 show ?thesis by simp
qed

text \<open>
  C5. ArenaBacked adapter, for an adapter that refers to the arena at \<open>r\<close>. \<open>Allocate\<close>
  returns the pointer of the block the arena's \<open>Alloc\<close> returns, so it returns null exactly
  when that block is null, and it never touches the heap; \<open>Free\<close> is the arena's \<open>Free\<close> and
  never touches the heap either.
\<close>

theorem ArenaAllocatorBase_no_fallback:
  "mArena this = Some r \<Longrightarrow>
     (\<forall>mem a'. Alloc A (arenas w r) (int_times_sizeof inSize sz) = Inr (mem, a') \<longrightarrow>
          ArenaAllocatorBase_Allocate A sz this inSize w =
            Inr (mPtr mem, w\<lparr>arenas := (arenas w)(r := a')\<rparr>))
   \<and> (\<forall>q w'. ArenaAllocatorBase_Allocate A sz this inSize w = Inr (q, w') \<longrightarrow>
          heap w' = heap w
        \<and> (\<exists>mem a'. Alloc A (arenas w r) (int_times_sizeof inSize sz) = Inr (mem, a')
              \<and> q = mPtr mem \<and> (q = 0) = MemBlock_is_null mem))
   \<and> ArenaAllocatorBase_Free A sz this inPtr inSize w =
        (case Free A (arenas w r)
                \<lparr>mPtr = inPtr, mLength = int_times_int64_sizeof inSize sz\<rparr> of
           Inl e \<Rightarrow> Inl e
         | Inr a' \<Rightarrow> Inr (w\<lparr>arenas := (arenas w)(r := a')\<rparr>))
   \<and> (\<forall>w'. ArenaAllocatorBase_Free A sz this inPtr inSize w = Inr w' \<longrightarrow> heap w' = heap w)"
  by (auto simp add: ArenaAllocatorBase_Allocate_def ArenaAllocatorBase_Free_def
      MemBlock_is_null_def split: sum.splits prod.splits)

theorem ArenaAllocatorBase_no_fallback_witness:
  "mArena (ArenaAllocatorBase_ctor 7) = Some 7
   \<and> ArenaAllocatorBase_Allocate BoundedArena_ops 4 (ArenaAllocatorBase_ctor 7) 8 ex_world =
       Inr (0, ex_world)
   \<and> ArenaAllocatorBase_Allocate BoundedArena_ops 4 (ArenaAllocatorBase_ctor 7) 2 ex_world =
       Inr (4096, ex_world\<lparr>arenas := (arenas ex_world)(7 := ex_arena\<lparr>arena_top := 8\<rparr>)\<rparr>)
   \<and> ArenaAllocatorBase_Free BoundedArena_ops 4 (ArenaAllocatorBase_ctor 7) 4104 1
         ex_world_two_blocks =
       Inr (ex_world\<lparr>arenas := (arenas ex_world)(7 := ex_arena\<lparr>arena_top := 8\<rparr>)\<rparr>)"
proof -
  have ref: "mArena (ArenaAllocatorBase_ctor 7) = Some 7"
    by (simp add: ArenaAllocatorBase_ctor_def)
  have refused: "Alloc BoundedArena_ops (arenas ex_world 7) (int_times_sizeof 8 4) =
      Inr (null_MemBlock, ex_arena)"
    by (simp add: ex_bytes BoundedArena_ops_def BoundedArena_Allocate_def ex_world_def ex_arena_def)
  have served: "Alloc BoundedArena_ops (arenas ex_world 7) (int_times_sizeof 2 4) =
      Inr (\<lparr>mPtr = 4096, mLength = 8\<rparr>, ex_arena\<lparr>arena_top := 8\<rparr>)"
    by (simp add: ex_bytes BoundedArena_ops_def BoundedArena_Allocate_def ex_world_def ex_arena_def)
  have a1: "ArenaAllocatorBase_Allocate BoundedArena_ops 4 (ArenaAllocatorBase_ctor 7) 8 ex_world =
      Inr (0, ex_world)"
    using ArenaAllocatorBase_no_fallback [OF ref, where A = BoundedArena_ops and w = ex_world and inSize = 8 and sz = 4,
        THEN conjunct1, rule_format, OF refused]
    by (simp add: null_MemBlock_def ex_world_def fun_eq_iff)
  have a2: "ArenaAllocatorBase_Allocate BoundedArena_ops 4 (ArenaAllocatorBase_ctor 7) 2 ex_world =
      Inr (4096, ex_world\<lparr>arenas := (arenas ex_world)(7 := ex_arena\<lparr>arena_top := 8\<rparr>)\<rparr>)"
    using ArenaAllocatorBase_no_fallback [OF ref, where A = BoundedArena_ops and w = ex_world and inSize = 2 and sz = 4,
        THEN conjunct1, rule_format, OF served]
    by simp
  have f: "ArenaAllocatorBase_Free BoundedArena_ops 4 (ArenaAllocatorBase_ctor 7) 4104 1
         ex_world_two_blocks =
       Inr (ex_world\<lparr>arenas := (arenas ex_world)(7 := ex_arena\<lparr>arena_top := 8\<rparr>)\<rparr>)"
    using ArenaAllocatorBase_no_fallback [OF ref, where A = BoundedArena_ops and w = ex_world_two_blocks and inSize = 1
        and sz = 4 and inPtr = 4104, THEN conjunct2, THEN conjunct2, THEN conjunct1]
    by (simp add: BoundedArena_ops_def BoundedArena_Free_def BoundedArena_Owns_def
        is_top_block_def block_offset_def int_times_int64_sizeof_def coalesce.simps
        ex_world_two_blocks_def ex_world_def ex_arena_def)
  from ref a1 a2 f show ?thesis by simp
qed

section \<open>Element counts and byte lengths\<close>

lemma int_times_sizeof_spec: "int_times_sizeof n sz = spec_byte_length n sz"
  by (simp add: int_times_sizeof_def spec_byte_length_def)

lemma int_times_int64_sizeof_spec: "int_times_int64_sizeof n sz = spec_byte_length n sz"
  by (simp add: int_times_int64_sizeof_def spec_byte_length_def)

lemma product_in_int64:
  fixes n :: int32 and sz :: size_t
  assumes "uint sz \<le> 2 ^ 32"
  shows "- (2 ^ 63) \<le> sint n * uint sz" and "sint n * uint sz < 2 ^ 63"
proof -
  have lo: "- (2 ^ 31) \<le> sint n" and hi: "sint n < 2 ^ 31"
    using sint_ge [of n] sint_lt [of n] by simp_all
  have nonneg: "0 \<le> uint sz" by simp
  show "- (2 ^ 63) \<le> sint n * uint sz"
  proof (cases "0 \<le> sint n")
    case True
    then have "0 \<le> sint n * uint sz" by simp
    then show ?thesis by simp
  next
    case False
    then have "(- sint n) * uint sz \<le> 2 ^ 31 * 2 ^ 32"
      using lo assms by (intro mult_mono) simp_all
    then show ?thesis by simp
  qed
  show "sint n * uint sz < 2 ^ 63"
  proof (cases "0 \<le> sint n")
    case True
    then have "sint n * uint sz \<le> (2 ^ 31 - 1) * 2 ^ 32"
      using hi assms by (intro mult_mono) simp_all
    then show ?thesis by simp
  next
    case False
    then have "sint n * uint sz \<le> 0"
      by (simp add: mult_le_0_iff)
    then show ?thesis by simp
  qed
qed

lemma spec_byte_length_exact:
  "uint sz \<le> 2 ^ 32 \<Longrightarrow> sint (spec_byte_length n sz) = sint n * uint sz"
proof -
  assume small: "uint sz \<le> 2 ^ 32"
  let ?x = "sint n * uint sz"
  have "sint (word_of_int ?x :: 64 word) = signed_take_bit (LENGTH(64) - 1) ?x"
    by (rule sint_sbintrunc')
  also have "\<dots> = ?x"
    using product_in_int64 [OF small, of n] by (simp add: signed_take_bit_int_eq_self)
  finally show ?thesis
    by (simp only: spec_byte_length_def)
qed

text \<open>
  C3. Every adapter converts an element count \<open>n\<close> to the byte length \<open>n * sizeof(element)\<close>
  before a block reaches the arena or the heap. Both conversions of Allocator.h yield
  \<open>spec_byte_length\<close>, which is the integer product exactly whenever the element size is at
  most \<open>2^32\<close> bytes, and each operation of each adapter is its backing operation on that
  length (for \<open>TryRealloc\<close>: on the block of the current count and the length of the new one).
\<close>

theorem adapters_pass_byte_lengths:
  "int_times_sizeof n sz = spec_byte_length n sz
   \<and> int_times_int64_sizeof n sz = spec_byte_length n sz
   \<and> (uint sz \<le> 2 ^ 32 \<longrightarrow> sint (spec_byte_length n sz) = sint n * uint sz)
   \<and> DefaultAllocator_Allocate H sz n w =
        (case gMemAlloc H (heap w) (spec_byte_length n sz) of
           Inl e \<Rightarrow> Inl e
         | Inr (mem, h') \<Rightarrow> Inr (mPtr mem, w\<lparr>heap := h'\<rparr>))
   \<and> DefaultAllocator_Free H sz p n w =
        (case gMemFree H (heap w) \<lparr>mPtr = p, mLength = spec_byte_length n sz\<rparr> of
           Inl e \<Rightarrow> Inl e
         | Inr h' \<Rightarrow> Inr (w\<lparr>heap := h'\<rparr>))
   \<and> TempAllocator_Allocate A H sz n w =
        (case Alloc A (gTempMemArena w) (spec_byte_length n sz) of
           Inl e \<Rightarrow> Inl e
         | Inr (mem, a') \<Rightarrow>
             if \<not> MemBlock_is_null mem then Inr (mPtr mem, w\<lparr>gTempMemArena := a'\<rparr>)
             else (case gMemAlloc H (heap w) (spec_byte_length n sz) of
                     Inl e \<Rightarrow> Inl e
                   | Inr (mem, h') \<Rightarrow> Inr (mPtr mem, w\<lparr>gTempMemArena := a', heap := h'\<rparr>)))
   \<and> TempAllocator_Free A H sz p n w =
        (if Owns A (gTempMemArena w) p
         then (case Free A (gTempMemArena w) \<lparr>mPtr = p, mLength = spec_byte_length n sz\<rparr> of
                 Inl e \<Rightarrow> Inl e
               | Inr a' \<Rightarrow> Inr (w\<lparr>gTempMemArena := a'\<rparr>))
         else (case gMemFree H (heap w) \<lparr>mPtr = p, mLength = spec_byte_length n sz\<rparr> of
                 Inl e \<Rightarrow> Inl e
               | Inr h' \<Rightarrow> Inr (w\<lparr>heap := h'\<rparr>)))
   \<and> (p \<noteq> 0 \<longrightarrow> Owns A (gTempMemArena w) p \<longrightarrow>
        TempAllocator_TryRealloc A sz p c n w =
          (case TryRealloc A (gTempMemArena w) \<lparr>mPtr = p, mLength = spec_byte_length c sz\<rparr>
                  (spec_byte_length n sz) of
             Inl e \<Rightarrow> Inl e
           | Inr (b, a') \<Rightarrow> Inr (b, w\<lparr>gTempMemArena := a'\<rparr>)))
   \<and> (mArena this = Some r \<longrightarrow>
        ArenaAllocatorBase_Allocate A sz this n w =
          (case Alloc A (arenas w r) (spec_byte_length n sz) of
             Inl e \<Rightarrow> Inl e
           | Inr (mem, a') \<Rightarrow> Inr (mPtr mem, w\<lparr>arenas := (arenas w)(r := a')\<rparr>))
      \<and> ArenaAllocatorBase_Free A sz this p n w =
          (case Free A (arenas w r) \<lparr>mPtr = p, mLength = spec_byte_length n sz\<rparr> of
             Inl e \<Rightarrow> Inl e
           | Inr a' \<Rightarrow> Inr (w\<lparr>arenas := (arenas w)(r := a')\<rparr>))
      \<and> (p \<noteq> 0 \<longrightarrow>
          ArenaAllocatorBase_TryRealloc A sz this p c n w =
            (case TryRealloc A (arenas w r) \<lparr>mPtr = p, mLength = spec_byte_length c sz\<rparr>
                    (spec_byte_length n sz) of
               Inl e \<Rightarrow> Inl e
             | Inr (b, a') \<Rightarrow> Inr (b, w\<lparr>arenas := (arenas w)(r := a')\<rparr>))))
   \<and> (\<not> MemBlock_is_null (GetMemBlock V (mVMemArena vthis)) \<longrightarrow>
        VMemAllocator_Allocate V sz n vthis =
          (case Alloc V (mVMemArena vthis) (spec_byte_length n sz) of
             Inl e \<Rightarrow> Inl e
           | Inr (mem, v') \<Rightarrow> Inr (mPtr mem, vthis\<lparr>mVMemArena := v'\<rparr>)))
   \<and> (MemBlock_is_null (GetMemBlock V (mVMemArena vthis)) \<longrightarrow>
        VMemAllocator_Allocate V sz n vthis =
          (case Alloc V (VMemArena_ctor V (cDefaultReservedSize V) (cDefaultCommitSize V))
                  (spec_byte_length n sz) of
             Inl e \<Rightarrow> Inl e
           | Inr (mem, v') \<Rightarrow> Inr (mPtr mem, vthis\<lparr>mVMemArena := v'\<rparr>)))
   \<and> VMemAllocator_Free V sz p n vthis =
        (case Free V (mVMemArena vthis) \<lparr>mPtr = p, mLength = spec_byte_length n sz\<rparr> of
           Inl e \<Rightarrow> Inl e
         | Inr v' \<Rightarrow> Inr (vthis\<lparr>mVMemArena := v'\<rparr>))
   \<and> (p \<noteq> 0 \<longrightarrow>
        VMemAllocator_TryRealloc V sz p c n vthis =
          (case TryRealloc V (mVMemArena vthis) \<lparr>mPtr = p, mLength = spec_byte_length c sz\<rparr>
                  (spec_byte_length n sz) of
             Inl e \<Rightarrow> Inl e
           | Inr (b, v') \<Rightarrow> Inr (b, vthis\<lparr>mVMemArena := v'\<rparr>)))"
proof -
  note conv = int_times_sizeof_spec int_times_int64_sizeof_spec
  have exact: "uint sz \<le> 2 ^ 32 \<longrightarrow> sint (spec_byte_length n sz) = sint n * uint sz"
    by (simp add: spec_byte_length_exact)
  have d1: "DefaultAllocator_Allocate H sz n w =
        (case gMemAlloc H (heap w) (spec_byte_length n sz) of
           Inl e \<Rightarrow> Inl e
         | Inr (mem, h') \<Rightarrow> Inr (mPtr mem, w\<lparr>heap := h'\<rparr>))"
    by (simp add: DefaultAllocator_Allocate_def conv)
  have d2: "DefaultAllocator_Free H sz p n w =
        (case gMemFree H (heap w) \<lparr>mPtr = p, mLength = spec_byte_length n sz\<rparr> of
           Inl e \<Rightarrow> Inl e
         | Inr h' \<Rightarrow> Inr (w\<lparr>heap := h'\<rparr>))"
    by (simp add: DefaultAllocator_Free_def conv)
  have t1: "TempAllocator_Allocate A H sz n w =
        (case Alloc A (gTempMemArena w) (spec_byte_length n sz) of
           Inl e \<Rightarrow> Inl e
         | Inr (mem, a') \<Rightarrow>
             if \<not> MemBlock_is_null mem then Inr (mPtr mem, w\<lparr>gTempMemArena := a'\<rparr>)
             else (case gMemAlloc H (heap w) (spec_byte_length n sz) of
                     Inl e \<Rightarrow> Inl e
                   | Inr (mem, h') \<Rightarrow> Inr (mPtr mem, w\<lparr>gTempMemArena := a', heap := h'\<rparr>)))"
    by (simp add: TempAllocator_Allocate_def DefaultAllocator_Allocate_def conv
        split: sum.splits prod.splits)
  have t2: "TempAllocator_Free A H sz p n w =
        (if Owns A (gTempMemArena w) p
         then (case Free A (gTempMemArena w) \<lparr>mPtr = p, mLength = spec_byte_length n sz\<rparr> of
                 Inl e \<Rightarrow> Inl e
               | Inr a' \<Rightarrow> Inr (w\<lparr>gTempMemArena := a'\<rparr>))
         else (case gMemFree H (heap w) \<lparr>mPtr = p, mLength = spec_byte_length n sz\<rparr> of
                 Inl e \<Rightarrow> Inl e
               | Inr h' \<Rightarrow> Inr (w\<lparr>heap := h'\<rparr>)))"
    by (simp add: TempAllocator_Free_def d2 conv)
  have t3: "p \<noteq> 0 \<longrightarrow> Owns A (gTempMemArena w) p \<longrightarrow>
        TempAllocator_TryRealloc A sz p c n w =
          (case TryRealloc A (gTempMemArena w) \<lparr>mPtr = p, mLength = spec_byte_length c sz\<rparr>
                  (spec_byte_length n sz) of
             Inl e \<Rightarrow> Inl e
           | Inr (b, a') \<Rightarrow> Inr (b, w\<lparr>gTempMemArena := a'\<rparr>))"
    by (simp add: TempAllocator_TryRealloc_def gAssert_def conv)
  have a: "mArena this = Some r \<longrightarrow>
        ArenaAllocatorBase_Allocate A sz this n w =
          (case Alloc A (arenas w r) (spec_byte_length n sz) of
             Inl e \<Rightarrow> Inl e
           | Inr (mem, a') \<Rightarrow> Inr (mPtr mem, w\<lparr>arenas := (arenas w)(r := a')\<rparr>))
      \<and> ArenaAllocatorBase_Free A sz this p n w =
          (case Free A (arenas w r) \<lparr>mPtr = p, mLength = spec_byte_length n sz\<rparr> of
             Inl e \<Rightarrow> Inl e
           | Inr a' \<Rightarrow> Inr (w\<lparr>arenas := (arenas w)(r := a')\<rparr>))
      \<and> (p \<noteq> 0 \<longrightarrow>
          ArenaAllocatorBase_TryRealloc A sz this p c n w =
            (case TryRealloc A (arenas w r) \<lparr>mPtr = p, mLength = spec_byte_length c sz\<rparr>
                    (spec_byte_length n sz) of
               Inl e \<Rightarrow> Inl e
             | Inr (b, a') \<Rightarrow> Inr (b, w\<lparr>arenas := (arenas w)(r := a')\<rparr>)))"
    by (simp add: ArenaAllocatorBase_Allocate_def ArenaAllocatorBase_Free_def
        ArenaAllocatorBase_TryRealloc_def gAssert_def conv)
  have v1: "\<not> MemBlock_is_null (GetMemBlock V (mVMemArena vthis)) \<longrightarrow>
        VMemAllocator_Allocate V sz n vthis =
          (case Alloc V (mVMemArena vthis) (spec_byte_length n sz) of
             Inl e \<Rightarrow> Inl e
           | Inr (mem, v') \<Rightarrow> Inr (mPtr mem, vthis\<lparr>mVMemArena := v'\<rparr>))"
    by (simp add: VMemAllocator_Allocate_def conv)
  have v2: "MemBlock_is_null (GetMemBlock V (mVMemArena vthis)) \<longrightarrow>
        VMemAllocator_Allocate V sz n vthis =
          (case Alloc V (VMemArena_ctor V (cDefaultReservedSize V) (cDefaultCommitSize V))
                  (spec_byte_length n sz) of
             Inl e \<Rightarrow> Inl e
           | Inr (mem, v') \<Rightarrow> Inr (mPtr mem, vthis\<lparr>mVMemArena := v'\<rparr>))"
    by (simp add: VMemAllocator_Allocate_def conv split: sum.splits prod.splits)
  have v3: "VMemAllocator_Free V sz p n vthis =
        (case Free V (mVMemArena vthis) \<lparr>mPtr = p, mLength = spec_byte_length n sz\<rparr> of
           Inl e \<Rightarrow> Inl e
         | Inr v' \<Rightarrow> Inr (vthis\<lparr>mVMemArena := v'\<rparr>))"
    by (simp add: VMemAllocator_Free_def conv)
  have v4: "p \<noteq> 0 \<longrightarrow>
        VMemAllocator_TryRealloc V sz p c n vthis =
          (case TryRealloc V (mVMemArena vthis) \<lparr>mPtr = p, mLength = spec_byte_length c sz\<rparr>
                  (spec_byte_length n sz) of
             Inl e \<Rightarrow> Inl e
           | Inr (b, v') \<Rightarrow> Inr (b, vthis\<lparr>mVMemArena := v'\<rparr>))"
    by (simp add: VMemAllocator_TryRealloc_def gAssert_def conv)
  from conv exact d1 d2 t1 t2 t3 a v1 v2 v3 v4 show ?thesis
    by blast
qed

theorem adapters_pass_byte_lengths_witness:
  "uint (4 :: size_t) \<le> 2 ^ 32
   \<and> sint (spec_byte_length 8 4) = 32
   \<and> sint (spec_byte_length (- 1) 4) = - 4
   \<and> int_times_sizeof 8 4 = 32
   \<and> int_times_int64_sizeof (- 1) 4 = - 4"
proof -
  have small: "uint (4 :: size_t) \<le> 2 ^ 32" by simp
  have e8: "sint (spec_byte_length 8 4) = 32"
    using adapters_pass_byte_lengths [of 8 4, THEN conjunct2, THEN conjunct2, THEN conjunct1, rule_format, OF small]
    by simp
  have e1: "sint (spec_byte_length (- 1) 4) = - 4"
    using adapters_pass_byte_lengths [of "- 1" 4, THEN conjunct2, THEN conjunct2, THEN conjunct1, rule_format, OF small]
    by simp
  have "int_times_sizeof 8 4 = 32" "int_times_int64_sizeof (- 1) 4 = - 4"
    by (simp_all add: int_times_sizeof_def int_times_int64_sizeof_def)
  with small e8 e1 show ?thesis by simp
qed

section \<open>In-place growth\<close>

text \<open>
  The arena model runs the spec's coalescing example as the spec tells it: A (100 bytes), B (50)
  and C (50) are allocated at offsets 0, 100 and 150; freeing A records it as pending; freeing C
  retracts the cursor to 150; freeing B retracts it to 100 and, A ending there, on to 0 with an
  empty table.
\<close>

lemma BoundedArena_coalescing_example:
  "BoundedArena_Allocate ex_arena300 100 =
     (\<lparr>mPtr = 4096, mLength = 100\<rparr>, ex_arena300\<lparr>arena_top := 100\<rparr>)"
  "BoundedArena_Allocate (ex_arena300\<lparr>arena_top := 100\<rparr>) 50 =
     (\<lparr>mPtr = 4196, mLength = 50\<rparr>, ex_arena300\<lparr>arena_top := 150\<rparr>)"
  "BoundedArena_Allocate (ex_arena300\<lparr>arena_top := 150\<rparr>) 50 =
     (\<lparr>mPtr = 4246, mLength = 50\<rparr>, ex_arena300\<lparr>arena_top := 200\<rparr>)"
  "BoundedArena_Free (ex_arena300\<lparr>arena_top := 200\<rparr>) \<lparr>mPtr = 4096, mLength = 100\<rparr> =
     Inr (ex_arena300\<lparr>arena_top := 200, arena_pending := [(0, 100)]\<rparr>)"
  "BoundedArena_Free (ex_arena300\<lparr>arena_top := 200, arena_pending := [(0, 100)]\<rparr>)
       \<lparr>mPtr = 4246, mLength = 50\<rparr> =
     Inr (ex_arena300\<lparr>arena_top := 150, arena_pending := [(0, 100)]\<rparr>)"
  "BoundedArena_Free (ex_arena300\<lparr>arena_top := 150, arena_pending := [(0, 100)]\<rparr>)
       \<lparr>mPtr = 4196, mLength = 50\<rparr> =
     Inr ex_arena300"
  by (simp_all add: BoundedArena_Allocate_def BoundedArena_Free_def BoundedArena_Owns_def
      is_top_block_def block_offset_def coalesce.simps ex_arena300_def)

lemma BoundedArena_TryRealloc_cases:
  "BoundedArena_TryRealloc a blk newSize =
     (if is_top_block a blk \<and> block_offset a blk + sint newSize \<le> arena_capacity a
      then (True, a\<lparr>arena_top := block_offset a blk + sint newSize\<rparr>)
      else (False, a))"
  by (auto simp: BoundedArena_TryRealloc_def is_top_block_def)

text \<open>
  The block an allocation returns is the top block of the arena, and it stops being the top
  block when a later allocation of a size other than zero succeeds.
\<close>

lemma allocated_block_is_top:
  assumes "BoundedArena_Allocate a n = (blk, a')" "arena_top a + sint n \<le> arena_capacity a"
    "0 \<le> arena_top a"
  shows "is_top_block a' blk"
  using assms by (auto simp: BoundedArena_Allocate_def is_top_block_def block_offset_def)

lemma earlier_block_not_top:
  assumes "BoundedArena_Allocate a n = (blk, a')" "arena_top a + sint n \<le> arena_capacity a"
    "0 \<le> arena_top a"
    and "BoundedArena_Allocate a' m = (blk2, a'')" "arena_top a' + sint m \<le> arena_capacity a'"
    "sint m \<noteq> 0"
  shows "\<not> is_top_block a'' blk"
  using assms by (auto simp: BoundedArena_Allocate_def is_top_block_def block_offset_def)

text \<open>
  C2. \<open>TryRealloc\<close> of the adapters that stand on an arena, for a non-null pointer, over the
  arenas as the spec describes them: the ArenaBacked adapter on the arena it refers to, the Temp
  adapter on a pointer the temp arena owns, the VMemBacked adapter on its committed prefix. With
  \<open>blk\<close> the block of the pointer and the current count, the result is false, and nothing
  changes, when \<open>blk\<close> is not the arena's most recent allocation, whatever the capacity; when
  it is, the result is true exactly when the block's offset plus the new byte length is within
  the capacity, and then only the cursor moves, to that sum: the buffer, the block's address and
  the pending table stay.
\<close>

theorem TryRealloc_in_place_growth:
  fixes inPtr :: ptr and inCurrentSize inNewSize :: int32 and sz :: size_t
  defines "blk \<equiv> \<lparr>mPtr = inPtr, mLength = int_times_int64_sizeof inCurrentSize sz\<rparr>"
    and "newBytes \<equiv> sint (int_times_sizeof inNewSize sz)"
  assumes nonnull: "inPtr \<noteq> 0"
  shows
  "(mArena this = Some r \<longrightarrow>
      ArenaAllocatorBase_TryRealloc BoundedArena_ops sz this inPtr inCurrentSize inNewSize w =
        (if is_top_block (arenas w r) blk
            \<and> block_offset (arenas w r) blk + newBytes \<le> arena_capacity (arenas w r)
         then Inr (True, w\<lparr>arenas := (arenas w)
                         (r := (arenas w r)\<lparr>arena_top := block_offset (arenas w r) blk + newBytes\<rparr>)\<rparr>)
         else Inr (False, w)))
   \<and> (Owns BoundedArena_ops (gTempMemArena w) inPtr \<longrightarrow>
      TempAllocator_TryRealloc BoundedArena_ops sz inPtr inCurrentSize inNewSize w =
        (if is_top_block (gTempMemArena w) blk
            \<and> block_offset (gTempMemArena w) blk + newBytes \<le> arena_capacity (gTempMemArena w)
         then Inr (True, w\<lparr>gTempMemArena :=
                         (gTempMemArena w)\<lparr>arena_top := block_offset (gTempMemArena w) blk + newBytes\<rparr>\<rparr>)
         else Inr (False, w)))
   \<and> VMemAllocator_TryRealloc (VMemArena_ops addr dr dc) sz inPtr inCurrentSize inNewSize vthis =
        (if is_top_block (vm_prefix (mVMemArena vthis)) blk
            \<and> block_offset (vm_prefix (mVMemArena vthis)) blk + newBytes
                 \<le> arena_capacity (vm_prefix (mVMemArena vthis))
         then Inr (True, vthis\<lparr>mVMemArena := (mVMemArena vthis)\<lparr>vm_prefix :=
                         (vm_prefix (mVMemArena vthis))
                           \<lparr>arena_top := block_offset (vm_prefix (mVMemArena vthis)) blk + newBytes\<rparr>\<rparr>\<rparr>)
         else Inr (False, vthis))"
proof -
  have a: "mArena this = Some r \<longrightarrow>
      ArenaAllocatorBase_TryRealloc BoundedArena_ops sz this inPtr inCurrentSize inNewSize w =
        (if is_top_block (arenas w r) blk
            \<and> block_offset (arenas w r) blk + newBytes \<le> arena_capacity (arenas w r)
         then Inr (True, w\<lparr>arenas := (arenas w)
                         (r := (arenas w r)\<lparr>arena_top := block_offset (arenas w r) blk + newBytes\<rparr>)\<rparr>)
         else Inr (False, w))"
    using nonnull
    by (simp add: ArenaAllocatorBase_TryRealloc_def gAssert_def BoundedArena_ops_def
        BoundedArena_TryRealloc_cases blk_def newBytes_def)
  have t: "Owns BoundedArena_ops (gTempMemArena w) inPtr \<longrightarrow>
      TempAllocator_TryRealloc BoundedArena_ops sz inPtr inCurrentSize inNewSize w =
        (if is_top_block (gTempMemArena w) blk
            \<and> block_offset (gTempMemArena w) blk + newBytes \<le> arena_capacity (gTempMemArena w)
         then Inr (True, w\<lparr>gTempMemArena :=
                         (gTempMemArena w)\<lparr>arena_top := block_offset (gTempMemArena w) blk + newBytes\<rparr>\<rparr>)
         else Inr (False, w))"
    using nonnull
    by (simp add: TempAllocator_TryRealloc_def gAssert_def BoundedArena_ops_def
        BoundedArena_TryRealloc_cases blk_def newBytes_def)
  have v: "VMemAllocator_TryRealloc (VMemArena_ops addr dr dc) sz inPtr inCurrentSize inNewSize vthis =
        (if is_top_block (vm_prefix (mVMemArena vthis)) blk
            \<and> block_offset (vm_prefix (mVMemArena vthis)) blk + newBytes
                 \<le> arena_capacity (vm_prefix (mVMemArena vthis))
         then Inr (True, vthis\<lparr>mVMemArena := (mVMemArena vthis)\<lparr>vm_prefix :=
                         (vm_prefix (mVMemArena vthis))
                           \<lparr>arena_top := block_offset (vm_prefix (mVMemArena vthis)) blk + newBytes\<rparr>\<rparr>\<rparr>)
         else Inr (False, vthis))"
    using nonnull
    by (simp add: VMemAllocator_TryRealloc_def gAssert_def VMemArena_ops_def
        VMemArena_TryRealloc_def BoundedArena_TryRealloc_cases blk_def newBytes_def)
  from a t v show ?thesis by blast
qed

text \<open>allocation history\<close>

theorem TryRealloc_in_place_growth_witness:
  "(4104::nat) \<noteq> 0 \<and> (4096::nat) \<noteq> 0
   \<and> mArena (ArenaAllocatorBase_ctor 7) = Some 7
   \<and> ArenaAllocatorBase_Allocate BoundedArena_ops 4 (ArenaAllocatorBase_ctor 7) 2 ex_world =
       Inr (4096, ex_world\<lparr>arenas := (arenas ex_world)(7 := ex_arena\<lparr>arena_top := 8\<rparr>)\<rparr>)
   \<and> ArenaAllocatorBase_Allocate BoundedArena_ops 4 (ArenaAllocatorBase_ctor 7) 1
         (ex_world\<lparr>arenas := (arenas ex_world)(7 := ex_arena\<lparr>arena_top := 8\<rparr>)\<rparr>) =
       Inr (4104, ex_world_two_blocks)
   \<and> ArenaAllocatorBase_TryRealloc BoundedArena_ops 4 (ArenaAllocatorBase_ctor 7) 4096 2 3
         ex_world_two_blocks = Inr (False, ex_world_two_blocks)
   \<and> ArenaAllocatorBase_TryRealloc BoundedArena_ops 4 (ArenaAllocatorBase_ctor 7) 4104 1 2
         ex_world_two_blocks =
       Inr (True, ex_world\<lparr>arenas := (arenas ex_world)(7 := ex_arena\<lparr>arena_top := 16\<rparr>)\<rparr>)
   \<and> ArenaAllocatorBase_TryRealloc BoundedArena_ops 4 (ArenaAllocatorBase_ctor 7) 4104 1 3
         ex_world_two_blocks = Inr (False, ex_world_two_blocks)
   \<and> Owns BoundedArena_ops (gTempMemArena ex_world_temp_two_blocks) 4104
   \<and> TempAllocator_TryRealloc BoundedArena_ops 4 4104 1 2 ex_world_temp_two_blocks =
       Inr (True, ex_world\<lparr>gTempMemArena := ex_arena\<lparr>arena_top := 16\<rparr>\<rparr>)"
proof -
  have nn: "(4104::nat) \<noteq> 0" "(4096::nat) \<noteq> 0" by simp_all
  have ref: "mArena (ArenaAllocatorBase_ctor 7) = Some 7"
    by (simp add: ArenaAllocatorBase_ctor_def)
  have owned: "Owns BoundedArena_ops (gTempMemArena ex_world_temp_two_blocks) 4104"
    by (simp add: BoundedArena_ops_def BoundedArena_Owns_def ex_world_temp_two_blocks_def
        ex_world_def ex_arena_def)
  note defs = is_top_block_def block_offset_def int_times_sizeof_def int_times_int64_sizeof_def
    ex_world_two_blocks_def ex_world_temp_two_blocks_def ex_world_def ex_arena_def
  have a: "ArenaAllocatorBase_TryRealloc BoundedArena_ops 4 (ArenaAllocatorBase_ctor 7) 4096 2 3
         ex_world_two_blocks = Inr (False, ex_world_two_blocks)"
    using TryRealloc_in_place_growth [OF nn(2), where this = "ArenaAllocatorBase_ctor 7" and r = 7 and sz = 4
        and inCurrentSize = 2 and inNewSize = 3 and w = ex_world_two_blocks,
        THEN conjunct1, rule_format, OF ref]
    by (simp add: defs)
  have b: "ArenaAllocatorBase_TryRealloc BoundedArena_ops 4 (ArenaAllocatorBase_ctor 7) 4104 1 2
         ex_world_two_blocks =
       Inr (True, ex_world\<lparr>arenas := (arenas ex_world)(7 := ex_arena\<lparr>arena_top := 16\<rparr>)\<rparr>)"
    using TryRealloc_in_place_growth [OF nn(1), where this = "ArenaAllocatorBase_ctor 7" and r = 7 and sz = 4
        and inCurrentSize = 1 and inNewSize = 2 and w = ex_world_two_blocks,
        THEN conjunct1, rule_format, OF ref]
    by (simp add: defs)
  have c: "ArenaAllocatorBase_TryRealloc BoundedArena_ops 4 (ArenaAllocatorBase_ctor 7) 4104 1 3
         ex_world_two_blocks = Inr (False, ex_world_two_blocks)"
    using TryRealloc_in_place_growth [OF nn(1), where this = "ArenaAllocatorBase_ctor 7" and r = 7 and sz = 4
        and inCurrentSize = 1 and inNewSize = 3 and w = ex_world_two_blocks,
        THEN conjunct1, rule_format, OF ref]
    by (simp add: defs)
  have t: "TempAllocator_TryRealloc BoundedArena_ops 4 4104 1 2 ex_world_temp_two_blocks =
       Inr (True, ex_world\<lparr>gTempMemArena := ex_arena\<lparr>arena_top := 16\<rparr>\<rparr>)"
    using TryRealloc_in_place_growth [OF nn(1), where sz = 4 and inCurrentSize = 1 and inNewSize = 2
        and w = ex_world_temp_two_blocks, THEN conjunct2, THEN conjunct1, rule_format, OF owned]
    by (simp add: defs)
  have allocs:
    "ArenaAllocatorBase_Allocate BoundedArena_ops 4 (ArenaAllocatorBase_ctor 7) 2 ex_world =
       Inr (4096, ex_world\<lparr>arenas := (arenas ex_world)(7 := ex_arena\<lparr>arena_top := 8\<rparr>)\<rparr>)"
    "ArenaAllocatorBase_Allocate BoundedArena_ops 4 (ArenaAllocatorBase_ctor 7) 1
         (ex_world\<lparr>arenas := (arenas ex_world)(7 := ex_arena\<lparr>arena_top := 8\<rparr>)\<rparr>) =
       Inr (4104, ex_world_two_blocks)"
    by (simp_all add: ArenaAllocatorBase_Allocate_def ArenaAllocatorBase_ctor_def
        BoundedArena_ops_def BoundedArena_Allocate_def int_times_sizeof_def
        ex_world_two_blocks_def ex_world_def ex_arena_def)
  from nn ref allocs a b c owned t show ?thesis by simp
qed

section \<open>Lazy initialization of VMemAllocator\<close>

text \<open>No operation of the arenas moves the buffer or changes the reserved range.\<close>

lemma coalesce_frame:
  "arena_buffer (coalesce a) = arena_buffer a
   \<and> arena_capacity (coalesce a) = arena_capacity a
   \<and> arena_K (coalesce a) = arena_K a"
proof (induction a rule: coalesce.induct)
  case (1 a)
  show ?case
  proof (cases "highest_pending (arena_pending a)")
    case None
    then have "coalesce a = a"
      by (subst coalesce.simps) simp
    then show ?thesis by simp
  next
    case (Some e)
    show ?thesis
    proof (cases "fst e + snd e = arena_top a")
      case True
      let ?a' = "a\<lparr>arena_pending := remove1 e (arena_pending a),
                    arena_top := arena_top a - snd e\<rparr>"
      from Some True have "coalesce a = coalesce ?a'"
        by (subst coalesce.simps) simp
      moreover from "1.IH" [OF Some True]
      have "arena_buffer (coalesce ?a') = arena_buffer a
          \<and> arena_capacity (coalesce ?a') = arena_capacity a
          \<and> arena_K (coalesce ?a') = arena_K a"
        by simp
      ultimately show ?thesis by simp
    next
      case False
      with Some have "coalesce a = a"
        by (subst coalesce.simps) simp
      then show ?thesis by simp
    qed
  qed
qed

lemma coalesce_keeps [simp]:
  "arena_buffer (coalesce a) = arena_buffer a"
  "arena_capacity (coalesce a) = arena_capacity a"
  "arena_K (coalesce a) = arena_K a"
  using coalesce_frame [of a] by simp_all

lemma BoundedArena_Allocate_buffer:
  "BoundedArena_Allocate a n = (blk, a') \<Longrightarrow> arena_buffer a' = arena_buffer a"
  by (auto simp: BoundedArena_Allocate_def split: if_splits)

lemma BoundedArena_Free_buffer:
  "BoundedArena_Free a blk = Inr a' \<Longrightarrow> arena_buffer a' = arena_buffer a"
  by (auto simp: BoundedArena_Free_def split: if_splits)

lemma BoundedArena_TryRealloc_buffer:
  "BoundedArena_TryRealloc a blk n = (b, a') \<Longrightarrow> arena_buffer a' = arena_buffer a"
  by (auto simp: BoundedArena_TryRealloc_def split: if_splits)

lemma VMemArena_Allocate_block:
  "VMemArena_Allocate v n = (blk, v') \<Longrightarrow> VMemArena_GetMemBlock v' = VMemArena_GetMemBlock v"
  by (auto simp: VMemArena_Allocate_def VMemArena_GetMemBlock_def Let_def
      split: if_splits prod.splits dest: BoundedArena_Allocate_buffer)

lemma VMemArena_Free_block:
  "VMemArena_Free v blk = Inr v' \<Longrightarrow> VMemArena_GetMemBlock v' = VMemArena_GetMemBlock v"
  by (auto simp: VMemArena_Free_def VMemArena_GetMemBlock_def
      split: sum.splits dest: BoundedArena_Free_buffer)

lemma VMemArena_TryRealloc_block:
  "VMemArena_TryRealloc v blk n = (b, v') \<Longrightarrow> VMemArena_GetMemBlock v' = VMemArena_GetMemBlock v"
  by (auto simp: VMemArena_TryRealloc_def VMemArena_GetMemBlock_def
      split: prod.splits dest: BoundedArena_TryRealloc_buffer)

lemma VMemAllocator_call_block:
  assumes "VMemAllocator_call (VMemArena_ops addr dr dc) sz c this = Inr this'"
  shows "VMemArena_GetMemBlock (mVMemArena this') =
     (if is_Allocate c \<and> MemBlock_is_null (VMemArena_GetMemBlock (mVMemArena this))
      then \<lparr>mPtr = addr, mLength = dr\<rparr>
      else VMemArena_GetMemBlock (mVMemArena this))"
proof (cases c)
  case (Call_Allocate n)
  show ?thesis
  proof (cases "MemBlock_is_null (VMemArena_GetMemBlock (mVMemArena this))")
    case True
    with assms Call_Allocate obtain blk v' where
      "VMemArena_Allocate (VMemArena_reserve addr dr dc) (int_times_sizeof n sz) = (blk, v')"
      and "mVMemArena this' = v'"
      by (auto simp: VMemAllocator_Allocate_def VMemArena_ops_def split: prod.splits)
    then have "VMemArena_GetMemBlock (mVMemArena this') =
        VMemArena_GetMemBlock (VMemArena_reserve addr dr dc)"
      by (simp add: VMemArena_Allocate_block)
    with True Call_Allocate show ?thesis
      by (simp add: VMemArena_GetMemBlock_def VMemArena_reserve_def)
  next
    case False
    with assms Call_Allocate obtain blk v' where
      "VMemArena_Allocate (mVMemArena this) (int_times_sizeof n sz) = (blk, v')"
      and "mVMemArena this' = v'"
      by (auto simp: VMemAllocator_Allocate_def VMemArena_ops_def split: prod.splits)
    then have "VMemArena_GetMemBlock (mVMemArena this') = VMemArena_GetMemBlock (mVMemArena this)"
      by (simp add: VMemArena_Allocate_block)
    with False show ?thesis by simp
  qed
next
  case (Call_Free p n)
  with assms show ?thesis
    by (auto simp: VMemAllocator_Free_def VMemArena_ops_def split: sum.splits
        dest: VMemArena_Free_block)
next
  case (Call_TryRealloc p c n)
  with assms show ?thesis
    by (auto simp: VMemAllocator_TryRealloc_def VMemArena_ops_def gAssert_def
        split: sum.splits prod.splits if_splits dest: VMemArena_TryRealloc_block)
qed

lemma VMemAllocator_run_block:
  "VMemAllocator_run (VMemArena_ops addr dr dc) sz cs this = Inr this' \<Longrightarrow>
   VMemArena_GetMemBlock (mVMemArena this') =
     (if (\<exists>c \<in> set cs. is_Allocate c) \<and> MemBlock_is_null (VMemArena_GetMemBlock (mVMemArena this))
      then \<lparr>mPtr = addr, mLength = dr\<rparr>
      else VMemArena_GetMemBlock (mVMemArena this))"
proof (induction cs arbitrary: this)
  case Nil
  then show ?case by simp
next
  case (Cons c cs)
  from Cons.prems obtain mid where
    step: "VMemAllocator_call (VMemArena_ops addr dr dc) sz c this = Inr mid"
    and rest: "VMemAllocator_run (VMemArena_ops addr dr dc) sz cs mid = Inr this'"
    by (auto split: sum.splits)
  note one = VMemAllocator_call_block [OF step]
  note more = Cons.IH [OF rest]
  show ?case
    using one more
    by (auto simp: MemBlock_is_null_def split: if_splits)
qed

text \<open>
  C6. VMemBacked adapter over the arena as the spec describes it, when the reservation succeeds
  (returns an address that is not null). A default-constructed adapter has no reservation: its
  arena's block is null. \<open>Allocate\<close> on an adapter without a reservation constructs the arena
  with the default reserved and commit sizes and allocates from it; afterwards the arena's block
  is the reserved range. \<open>Allocate\<close> on an adapter with a reservation allocates from the arena
  as it is, and no sequence of \<open>Allocate\<close>, \<open>Free\<close> and \<open>TryRealloc\<close> changes the arena's
  block. Starting from a default-constructed adapter the block is the reserved range as soon as
  the sequence holds an \<open>Allocate\<close>, and null before.
\<close>

theorem VMemAllocator_lazy_initialization:
  fixes addr :: ptr and dr dc :: int64
  defines "V \<equiv> VMemArena_ops addr dr dc"
  assumes reserved: "addr \<noteq> 0"
  shows
  "MemBlock_is_null (GetMemBlock V (mVMemArena (VMemAllocator_default V)))
   \<and> (MemBlock_is_null (GetMemBlock V (mVMemArena this)) \<longrightarrow>
        VMemAllocator_Allocate V sz n this =
          (case Alloc V (VMemArena_ctor V (cDefaultReservedSize V) (cDefaultCommitSize V))
                  (int_times_sizeof n sz) of
             Inl e \<Rightarrow> Inl e
           | Inr (mem, v') \<Rightarrow> Inr (mPtr mem, this\<lparr>mVMemArena := v'\<rparr>))
      \<and> (\<exists>p this'. VMemAllocator_Allocate V sz n this = Inr (p, this')
            \<and> GetMemBlock V (mVMemArena this') = \<lparr>mPtr = addr, mLength = dr\<rparr>
            \<and> \<not> MemBlock_is_null (GetMemBlock V (mVMemArena this'))
            \<and> vm_reserved (mVMemArena this') = sint dr
            \<and> vm_commit_increase (mVMemArena this') = sint dc))
   \<and> (\<not> MemBlock_is_null (GetMemBlock V (mVMemArena this)) \<longrightarrow>
        VMemAllocator_Allocate V sz n this =
          (case Alloc V (mVMemArena this) (int_times_sizeof n sz) of
             Inl e \<Rightarrow> Inl e
           | Inr (mem, v') \<Rightarrow> Inr (mPtr mem, this\<lparr>mVMemArena := v'\<rparr>))
      \<and> (\<forall>cs this'. VMemAllocator_run V sz cs this = Inr this' \<longrightarrow>
            GetMemBlock V (mVMemArena this') = GetMemBlock V (mVMemArena this)))
   \<and> (\<forall>cs this'. VMemAllocator_run V sz cs (VMemAllocator_default V) = Inr this' \<longrightarrow>
        GetMemBlock V (mVMemArena this') =
          (if \<exists>c \<in> set cs. is_Allocate c then \<lparr>mPtr = addr, mLength = dr\<rparr> else null_MemBlock))"
proof -
  have get: "GetMemBlock V = VMemArena_GetMemBlock"
    by (simp add: V_def VMemArena_ops_def)
  have dflt: "mVMemArena (VMemAllocator_default V) = VMemArena_uninitialized"
    by (simp add: V_def VMemArena_ops_def VMemAllocator_default_def)
  have null0: "VMemArena_GetMemBlock VMemArena_uninitialized = null_MemBlock"
    by (simp add: VMemArena_GetMemBlock_def VMemArena_uninitialized_def null_MemBlock_def)
  have p1: "MemBlock_is_null (GetMemBlock V (mVMemArena (VMemAllocator_default V)))"
    by (simp add: get dflt null0 MemBlock_is_null_def null_MemBlock_def)
  have p2: "VMemAllocator_Allocate V sz n this =
          (case Alloc V (VMemArena_ctor V (cDefaultReservedSize V) (cDefaultCommitSize V))
                  (int_times_sizeof n sz) of
             Inl e \<Rightarrow> Inl e
           | Inr (mem, v') \<Rightarrow> Inr (mPtr mem, this\<lparr>mVMemArena := v'\<rparr>))
      \<and> (\<exists>p this'. VMemAllocator_Allocate V sz n this = Inr (p, this')
            \<and> GetMemBlock V (mVMemArena this') = \<lparr>mPtr = addr, mLength = dr\<rparr>
            \<and> \<not> MemBlock_is_null (GetMemBlock V (mVMemArena this'))
            \<and> vm_reserved (mVMemArena this') = sint dr
            \<and> vm_commit_increase (mVMemArena this') = sint dc)"
    if uninit: "MemBlock_is_null (GetMemBlock V (mVMemArena this))"
  proof -
    obtain blk v' where al:
      "VMemArena_Allocate (VMemArena_reserve addr dr dc) (int_times_sizeof n sz) = (blk, v')"
      by (cases "VMemArena_Allocate (VMemArena_reserve addr dr dc) (int_times_sizeof n sz)")
    have res: "VMemAllocator_Allocate V sz n this = Inr (mPtr blk, this\<lparr>mVMemArena := v'\<rparr>)"
      using uninit al by (simp add: VMemAllocator_Allocate_def V_def VMemArena_ops_def)
    have blk: "VMemArena_GetMemBlock v' = \<lparr>mPtr = addr, mLength = dr\<rparr>"
      using VMemArena_Allocate_block [OF al]
      by (simp add: VMemArena_GetMemBlock_def VMemArena_reserve_def)
    have sizes: "vm_reserved v' = sint dr \<and> vm_commit_increase v' = sint dc"
      using al
      by (auto simp: VMemArena_Allocate_def VMemArena_reserve_def Let_def
          split: if_splits prod.splits)
    have eq: "VMemAllocator_Allocate V sz n this =
          (case Alloc V (VMemArena_ctor V (cDefaultReservedSize V) (cDefaultCommitSize V))
                  (int_times_sizeof n sz) of
             Inl e \<Rightarrow> Inl e
           | Inr (mem, v') \<Rightarrow> Inr (mPtr mem, this\<lparr>mVMemArena := v'\<rparr>))"
      using uninit by (simp add: VMemAllocator_Allocate_def split: sum.splits prod.splits)
    from res blk sizes reserved eq show ?thesis
      by (simp add: get MemBlock_is_null_def)
  qed
  have p3: "VMemAllocator_Allocate V sz n this =
          (case Alloc V (mVMemArena this) (int_times_sizeof n sz) of
             Inl e \<Rightarrow> Inl e
           | Inr (mem, v') \<Rightarrow> Inr (mPtr mem, this\<lparr>mVMemArena := v'\<rparr>))
      \<and> (\<forall>cs this'. VMemAllocator_run V sz cs this = Inr this' \<longrightarrow>
            GetMemBlock V (mVMemArena this') = GetMemBlock V (mVMemArena this))"
    if init: "\<not> MemBlock_is_null (GetMemBlock V (mVMemArena this))"
  proof -
    have "VMemAllocator_Allocate V sz n this =
          (case Alloc V (mVMemArena this) (int_times_sizeof n sz) of
             Inl e \<Rightarrow> Inl e
           | Inr (mem, v') \<Rightarrow> Inr (mPtr mem, this\<lparr>mVMemArena := v'\<rparr>))"
      using init by (simp add: VMemAllocator_Allocate_def)
    moreover have "GetMemBlock V (mVMemArena this') = GetMemBlock V (mVMemArena this)"
      if "VMemAllocator_run V sz cs this = Inr this'" for cs this'
      using VMemAllocator_run_block [OF that [unfolded V_def]] init
      by (simp add: get)
    ultimately show ?thesis by blast
  qed
  have p4: "GetMemBlock V (mVMemArena this') =
          (if \<exists>c \<in> set cs. is_Allocate c then \<lparr>mPtr = addr, mLength = dr\<rparr> else null_MemBlock)"
    if "VMemAllocator_run V sz cs (VMemAllocator_default V) = Inr this'" for cs this'
    using VMemAllocator_run_block [OF that [unfolded V_def]]
    by (simp add: get dflt [unfolded V_def] null0 MemBlock_is_null_def null_MemBlock_def)
  from p1 p2 p3 p4 show ?thesis
    by blast
qed

theorem VMemAllocator_lazy_initialization_witness:
  "(1048576::nat) \<noteq> 0
   \<and> MemBlock_is_null (GetMemBlock ex_vmem (mVMemArena (VMemAllocator_default ex_vmem)))
   \<and> (\<exists>p this'. VMemAllocator_Allocate ex_vmem 4 8 (VMemAllocator_default ex_vmem) = Inr (p, this')
         \<and> GetMemBlock ex_vmem (mVMemArena this') = \<lparr>mPtr = 1048576, mLength = 65536\<rparr>
         \<and> \<not> MemBlock_is_null (GetMemBlock ex_vmem (mVMemArena this')))
   \<and> (\<exists>this'. VMemAllocator_run ex_vmem 4
                  [Call_Allocate 8, Call_Allocate 2, Call_TryRealloc 1048608 2 4,
                   Call_Free 1048608 4, Call_Free 1048576 8, Call_Allocate 2000]
                  (VMemAllocator_default ex_vmem) = Inr this'
         \<and> GetMemBlock ex_vmem (mVMemArena this') = \<lparr>mPtr = 1048576, mLength = 65536\<rparr>)"
proof -
  have reserved: "(1048576::nat) \<noteq> 0" by simp
  note inst = VMemAllocator_lazy_initialization [OF reserved, where dr = 65536 and dc = 4096 and sz = 4, folded ex_vmem_def]
  have uninit: "MemBlock_is_null (GetMemBlock ex_vmem (mVMemArena (VMemAllocator_default ex_vmem)))"
    using inst [THEN conjunct1] .
  from inst [where this = "VMemAllocator_default ex_vmem" and n = 8,
      THEN conjunct2, THEN conjunct1, rule_format, OF uninit, THEN conjunct2]
  have first: "\<exists>p this'. VMemAllocator_Allocate ex_vmem 4 8 (VMemAllocator_default ex_vmem) = Inr (p, this')
         \<and> GetMemBlock ex_vmem (mVMemArena this') = \<lparr>mPtr = 1048576, mLength = 65536\<rparr>
         \<and> \<not> MemBlock_is_null (GetMemBlock ex_vmem (mVMemArena this'))"
    by blast
  let ?cs = "[Call_Allocate 8, Call_Allocate 2, Call_TryRealloc 1048608 2 4,
                   Call_Free 1048608 4, Call_Free 1048576 8, Call_Allocate 2000]"
  obtain this' where run: "VMemAllocator_run ex_vmem 4 ?cs (VMemAllocator_default ex_vmem) = Inr this'"
    by (simp add: ex_vmem_def VMemArena_ops_def VMemAllocator_default_def
        VMemAllocator_Allocate_def VMemAllocator_Free_def VMemAllocator_TryRealloc_def
        VMemArena_uninitialized_def VMemArena_reserve_def VMemArena_GetMemBlock_def
        VMemArena_Allocate_def VMemArena_commit_for_def VMemArena_Free_def
        VMemArena_TryRealloc_def BoundedArena_Allocate_def BoundedArena_Free_def
        BoundedArena_TryRealloc_def BoundedArena_Owns_def is_top_block_def block_offset_def
        MemBlock_is_null_def gAssert_def int_times_sizeof_def int_times_int64_sizeof_def
        coalesce.simps Let_def)
  from inst [THEN conjunct2, THEN conjunct2, THEN conjunct2, rule_format, OF run]
  have "GetMemBlock ex_vmem (mVMemArena this') = \<lparr>mPtr = 1048576, mLength = 65536\<rparr>"
    by simp
  with run reserved uninit first show ?thesis by blast
qed

section \<open>Properties of the test harness\<close>

text \<open>A registered test is the last entry of \<open>sAllTests\<close>.\<close>

lemma gRegisterTest_appends:
  "name \<noteq> [] \<Longrightarrow>
   gRegisterTest (Some name) f st =
     Inr (st\<lparr>sAllTests := sAllTests st @ [\<lparr>mName = name, mFunction = f\<rparr>]\<rparr>)"
  by (simp add: gRegisterTest_def gAssert_def)

lemma started_append: "started (xs @ ys) = started xs @ started ys"
  by (induction xs rule: started.induct) simp_all

lemma verdicts_append: "verdicts (xs @ ys) = verdicts xs @ verdicts ys"
  by (induction xs rule: verdicts.induct) simp_all

lemma gTrace_fields:
  "traced (gTrace l st) = traced st @ [l]"
  "sAllTests (gTrace l st) = sAllTests st"
  "sCurrentTestSuccess (gTrace l st) = sCurrentTestSuccess st"
  by (simp_all add: gTrace_def)

lemma gFailTest_fields:
  "sCurrentTestSuccess (gFailTest caller m c f l st) = (sCurrentTestSuccess st)(caller := False)"
  "started (traced (gFailTest caller m c f l st)) = started (traced st)"
  "verdicts (traced (gFailTest caller m c f l st)) = verdicts (traced st)"
  by (simp_all add: gFailTest_def gTrace_def Let_def started_append verdicts_append)

lemma call_TestFunction_flag:
  "sCurrentTestSuccess (call_TestFunction f st) self =
     (sCurrentTestSuccess st self \<and> self \<notin> set (map fst f))"
proof (induction f arbitrary: st)
  case Nil
  show ?case by simp
next
  case (Cons x f)
  obtain caller c where x: "x = (caller, c)"
    by (cases x)
  let ?st1 = "gFailTest caller (inMacro c) (inCode c) (inFile c) (inLine c) st"
  have "sCurrentTestSuccess (call_TestFunction (x # f) st) self =
      sCurrentTestSuccess (call_TestFunction f ?st1) self"
    by (simp add: x)
  also have "\<dots> = (sCurrentTestSuccess ?st1 self \<and> self \<notin> set (map fst f))"
    by (rule Cons.IH)
  also have "\<dots> = (sCurrentTestSuccess st self \<and> self \<notin> set (map fst (x # f)))"
    by (auto simp add: gFailTest_fields x)
  finally show ?case .
qed

lemma call_TestFunction_lines:
  "started (traced (call_TestFunction f st)) = started (traced st)"
  "verdicts (traced (call_TestFunction f st)) = verdicts (traced st)"
  by (induction f arbitrary: st) (auto simp add: gFailTest_fields)

lemma gRunTests_loop_result:
  "\<forall>t \<in> set tests. mFunction t \<noteq> None \<Longrightarrow>
   \<exists>st'. gRunTests_loop self tests all_success st =
           Inr (all_success \<and> (\<forall>t \<in> set tests. passes_on self t), st')
     \<and> started (traced st') = started (traced st) @ map mName tests
     \<and> verdicts (traced st') =
         verdicts (traced st) @ map (\<lambda>t. (mName t, passes_on self t)) tests"
proof (induction tests arbitrary: all_success st)
  case Nil
  then show ?case by simp
next
  case (Cons test tests)
  from Cons.prems obtain f where f: "mFunction test = Some f"
    by auto
  then have pass: "passes_on self test = (self \<notin> set (map fst f))"
    by (simp add: passes_on_def)
  let ?st3 = "gTrace (TestStarting (mName test))
      (st\<lparr>sCurrentTestName := (sCurrentTestName st)(self := mName test),
          sCurrentTestSuccess := (sCurrentTestSuccess st)(self := True)\<rparr>)"
  let ?st4 = "call_TestFunction f ?st3"
  let ?st5 = "gTrace (TestFinished (mName test) (sCurrentTestSuccess ?st4 self)) ?st4"
  let ?st6 = "?st5\<lparr>sCurrentTestName := (sCurrentTestName ?st5)(self := [])\<rparr>"
  have ok: "sCurrentTestSuccess ?st4 self = passes_on self test"
    by (simp add: call_TestFunction_flag gTrace_fields pass)
  have step: "gRunTests_loop self (test # tests) all_success st =
      gRunTests_loop self tests (all_success \<and> sCurrentTestSuccess ?st4 self) ?st6"
    by (simp add: f Let_def gTrace_fields)
  have st6_started: "started (traced ?st6) = started (traced st) @ [mName test]"
    by (simp add: gTrace_fields started_append call_TestFunction_lines)
  have st6_verdicts:
    "verdicts (traced ?st6) =
       verdicts (traced st) @ [(mName test, sCurrentTestSuccess ?st4 self)]"
    by (simp add: gTrace_fields verdicts_append call_TestFunction_lines)
  from Cons.prems have rest: "\<forall>t \<in> set tests. mFunction t \<noteq> None"
    by simp
  from Cons.IH [OF rest, of "all_success \<and> sCurrentTestSuccess ?st4 self" ?st6] obtain st' where
    IH: "gRunTests_loop self tests (all_success \<and> sCurrentTestSuccess ?st4 self) ?st6 =
       Inr ((all_success \<and> sCurrentTestSuccess ?st4 self)
              \<and> (\<forall>t \<in> set tests. passes_on self t), st')"
      "started (traced st') = started (traced ?st6) @ map mName tests"
      "verdicts (traced st') =
         verdicts (traced ?st6) @ map (\<lambda>t. (mName t, passes_on self t)) tests"
    by blast
  have "gRunTests_loop self (test # tests) all_success st =
      Inr ((all_success \<and> sCurrentTestSuccess ?st4 self)
             \<and> (\<forall>t \<in> set tests. passes_on self t), st')"
    by (simp only: step IH(1))
  then have "gRunTests_loop self (test # tests) all_success st =
      Inr (all_success \<and> (\<forall>t \<in> set (test # tests). passes_on self t), st')"
    unfolding ok by simp
  moreover have "started (traced st') = started (traced st) @ map mName (test # tests)"
  proof -
    have "started (traced st') = (started (traced st) @ [mName test]) @ map mName tests"
      by (simp only: IH(2) st6_started)
    then show ?thesis by simp
  qed
  moreover have "verdicts (traced st') =
      verdicts (traced st) @ map (\<lambda>t. (mName t, passes_on self t)) (test # tests)"
  proof -
    have "verdicts (traced st') =
        (verdicts (traced st) @ [(mName test, sCurrentTestSuccess ?st4 self)])
          @ map (\<lambda>t. (mName t, passes_on self t)) tests"
      by (simp only: IH(3) st6_verdicts)
    then show ?thesis
      unfolding ok by simp
  qed
  ultimately show ?case by blast
qed

text \<open>
  C7, as amended. When every registered test has a function, \<open>gRunTests\<close>, called on a thread,
  returns; it starts every registered test, in the order of registration; the verdict it prints
  for a test is "Success" exactly when no call of \<open>gFailTest\<close> made during the test was made on
  that thread; and it returns \<open>Success\<close> exactly when that is so for every test. \<open>gFailTest\<close>
  sets the flag of the thread that calls it to false and leaves the flags of the other threads
  as they are.
\<close>

theorem gRunTests_aggregates_on_thread:
  "\<forall>t \<in> set (sAllTests st). mFunction t \<noteq> None \<Longrightarrow>
   (\<exists>st'. gRunTests self st =
            Inr (if \<forall>t \<in> set (sAllTests st). passes_on self t then Success else Failure, st')
      \<and> started (traced st') = started (traced st) @ map mName (sAllTests st)
      \<and> verdicts (traced st') =
          verdicts (traced st) @ map (\<lambda>t. (mName t, passes_on self t)) (sAllTests st))
   \<and> sCurrentTestSuccess (gFailTest caller macro code file line st) =
       (sCurrentTestSuccess st)(caller := False)"
proof -
  assume callable: "\<forall>t \<in> set (sAllTests st). mFunction t \<noteq> None"
  let ?st1 = "gTrace RunningAllTests st"
  have tests: "sAllTests ?st1 = sAllTests st"
    by (simp add: gTrace_def)
  from gRunTests_loop_result [of "sAllTests st" self True ?st1] callable obtain st' where
    run: "gRunTests_loop self (sAllTests st) True ?st1 =
        Inr (\<forall>t \<in> set (sAllTests st). passes_on self t, st')"
    and tr: "started (traced st') = started (traced ?st1) @ map mName (sAllTests st)"
      "verdicts (traced st') =
         verdicts (traced ?st1) @ map (\<lambda>t. (mName t, passes_on self t)) (sAllTests st)"
    by auto
  have "gRunTests self st =
      Inr (if \<forall>t \<in> set (sAllTests st). passes_on self t then Success else Failure, st')"
    by (simp add: gRunTests_def Let_def tests run)
  moreover have "started (traced ?st1) = started (traced st)"
    "verdicts (traced ?st1) = verdicts (traced st)"
    by (simp_all add: gTrace_def started_append verdicts_append)
  ultimately show ?thesis
    using tr by (simp add: gFailTest_fields)
qed

theorem gRunTests_aggregates_on_thread_witness:
  "(\<exists>st'. gRunTests 0 ex_harness = Inr (Failure, st')
      \<and> started (traced st') = [''Arena'', ''Span'']
      \<and> verdicts (traced st') = [(''Arena'', True), (''Span'', False)])
   \<and> (\<exists>st'. gRunTests 0 ex_harness_worker = Inr (Success, st')
      \<and> verdicts (traced st') = [(''Worker'', True)])"
proof -
  have callable: "\<forall>t \<in> set (sAllTests ex_harness). mFunction t \<noteq> None"
    by (simp add: ex_harness_def)
  have callable': "\<forall>t \<in> set (sAllTests ex_harness_worker). mFunction t \<noteq> None"
    by (simp add: ex_harness_worker_def)
  from gRunTests_aggregates_on_thread [OF callable, of 0, THEN conjunct1]
  have one: "\<exists>st'. gRunTests 0 ex_harness = Inr (Failure, st')
      \<and> started (traced st') = [''Arena'', ''Span'']
      \<and> verdicts (traced st') = [(''Arena'', True), (''Span'', False)]"
    by (simp add: ex_harness_def passes_on_def)
  from gRunTests_aggregates_on_thread [OF callable', of 0, THEN conjunct1]
  have two: "\<exists>st'. gRunTests 0 ex_harness_worker = Inr (Success, st')
      \<and> verdicts (traced st') = [(''Worker'', True)]"
    by (auto simp add: ex_harness_worker_def passes_on_def)
  from one two show ?thesis by blast
qed

text \<open>
  Against C7 as stated: the test of \<open>ex_harness_worker\<close> calls \<open>gFailTest\<close> while it runs,
  on thread 1, and the call is carried out (the trace shows its line); \<open>gRunTests\<close>, on
  thread 0, prints "Success" for the test and returns \<open>Success\<close>.
\<close>

theorem gRunTests_worker_thread_counterexample:
  "map mFunction (sAllTests ex_harness_worker) = [Some [(1, ex_fail_call)]]
   \<and> gRunTests 0 ex_harness_worker =
       Inr (Success,
            ex_harness_worker
              \<lparr>sCurrentTestName := (sCurrentTestName ex_harness_worker)(0 := []),
               sCurrentTestSuccess := (sCurrentTestSuccess ex_harness_worker)(0 := True, 1 := False),
               traced := [RunningAllTests, TestStarting ''Worker'',
                          CheckFailed ''TEST_TRUE'' ''span.Empty()'' ''SpanTest.cpp'' 12,
                          TestFinished ''Worker'' True]\<rparr>)"
  by (simp add: gRunTests_def gFailTest_def gTrace_def Let_def ex_harness_worker_def
      ex_fail_call_def fun_eq_iff)

section \<open>Properties of Span\<close>

lemma sint_sub_in_range:
  fixes a b :: int32
  assumes "0 \<le> sint b" "sint b \<le> sint a"
  shows "sint (a - b) = sint a - sint b"
proof -
  have "sint a < 2 ^ 31" using sint_lt [of a] by simp
  with assms have "- (2 ^ 31) \<le> sint a - sint b" "sint a - sint b < 2 ^ 31"
    by simp_all
  then have "signed_take_bit (LENGTH(32) - 1) (sint a - sint b) = sint a - sint b"
    by (simp add: signed_take_bit_int_eq_self)
  then show ?thesis
    by (simp add: sint_word_ariths)
qed

lemma sint_gMin: "sint (gMin a b) = min (sint a) (sint b)"
  by (simp add: gMin_def word_sless_alt min_def)

lemma gBoundsCheck_passes:
  "gBoundsCheck i n = Inr () \<longleftrightarrow> 0 \<le> sint i \<and> sint i < sint n"
  by (simp add: gBoundsCheck_def gAssert_def word_sle_eq word_sless_alt)

lemma take_drop_map_upt:
  "take c (drop p (map f [0..<n])) = map (\<lambda>i. f (i + p)) [0..<min c (n - p)]"
  for c p n :: nat
  by (auto simp: list_eq_iff_nth_eq add.commute)

lemma shown_elems:
  "map (\<lambda>i. mem (d + p + int i)) [0..<nat (min c (n - p))] =
     take (nat c) (drop (nat p) (map (\<lambda>i. mem (d + int i)) [0..<nat n]))"
  if "0 \<le> p" "p < n" for d p c n :: int
proof -
  have "min (nat c) (nat n - nat p) = nat (min c (n - p))"
    using that by (simp add: min_def nat_diff_distrib)
  moreover have "d + int (i + nat p) = d + p + int i" for i
    using that by simp
  ultimately show ?thesis
    by (simp add: take_drop_map_upt ac_simps)
qed

text \<open>
  C10. For a position that passes the bounds check against the span's size, \<open>SubSpan\<close>
  returns a span that starts at the element of that position and whose size is the smaller of
  the requested count and the number of elements from the position on; it shows the elements
  of the original span from the position on, cut at the requested count.
\<close>

theorem SubSpan_clamps:
  "gBoundsCheck inPosition (mSize s) = Inr () \<Longrightarrow>
   \<exists>r. SubSpan s inPosition inCount = Inr r
     \<and> mData r = mData s + sint inPosition
     \<and> sint (mSize r) = min (sint inCount) (sint (mSize s) - sint inPosition)
     \<and> Span_elems mem r =
         take (nat (sint inCount)) (drop (nat (sint inPosition)) (Span_elems mem s))"
proof -
  assume ok: "gBoundsCheck inPosition (mSize s) = Inr ()"
  then have range: "0 \<le> sint inPosition" "sint inPosition < sint (mSize s)"
    by (simp_all add: gBoundsCheck_passes)
  then have diff: "sint (mSize s - inPosition) = sint (mSize s) - sint inPosition"
    by (simp add: sint_sub_in_range)
  let ?r = "\<lparr>mData = mData s + sint inPosition, mSize = gMin inCount (mSize s - inPosition)\<rparr>"
  have res: "SubSpan s inPosition inCount = Inr ?r"
    using ok by (simp add: SubSpan_def)
  have size: "sint (mSize ?r) = min (sint inCount) (sint (mSize s) - sint inPosition)"
    by (simp add: sint_gMin diff)
  have "Span_elems mem ?r =
      take (nat (sint inCount)) (drop (nat (sint inPosition)) (Span_elems mem s))"
    unfolding Span_elems_def size
    using shown_elems [OF range, of mem "mData s" "sint inCount"] by simp
  with res size show ?thesis by simp
qed

theorem SubSpan_clamps_witness:
  "gBoundsCheck 2 (mSize \<lparr>mData = 100, mSize = 5\<rparr>) = Inr ()
   \<and> SubSpan \<lparr>mData = 100, mSize = 5\<rparr> 2 cMaxInt = Inr \<lparr>mData = 102, mSize = 3\<rparr>
   \<and> SubSpan \<lparr>mData = 100, mSize = 5\<rparr> 2 2 = Inr \<lparr>mData = 102, mSize = 2\<rparr>"
proof -
  have ok: "gBoundsCheck 2 (mSize \<lparr>mData = 100, mSize = 5\<rparr>) = Inr ()"
    by (simp add: gBoundsCheck_passes)
  from SubSpan_clamps [OF ok, of cMaxInt id] obtain r where
    "SubSpan \<lparr>mData = 100, mSize = 5\<rparr> 2 cMaxInt = Inr r" "mData r = 102"
    "sint (mSize r) = 3"
    by (auto simp: cMaxInt_def)
  moreover have "SubSpan \<lparr>mData = 100, mSize = 5\<rparr> 2 2 = Inr \<lparr>mData = 102, mSize = 2\<rparr>"
    using ok by (simp add: SubSpan_def gMin_def word_sless_alt)
  moreover have "SubSpan \<lparr>mData = 100, mSize = 5\<rparr> 2 cMaxInt = Inr \<lparr>mData = 102, mSize = 3\<rparr>"
    using ok by (simp add: SubSpan_def gMin_def word_sless_alt cMaxInt_def)
  ultimately show ?thesis using ok by simp
qed

end
